theory Spec2Isabelle
  imports Main
begin

section \<open>Data model\<close>

text \<open>
  Several interfaces of the program share field names (\<open>nonce\<close>, \<open>chainId\<close>,
  \<open>startTime\<close>, ...). Each interface is a record of its own and keeps the names of the
  source; where two records have a field of the same name the field is written with its
  record as qualifier. A parameter or local constant of the source whose name is also a
  field (\<open>rpcCalls\<close>, \<open>startTime\<close>) is written with a prime.

  Numbers: \<open>Date.now()\<close> yields integral milliseconds and all arithmetic done on
  them is subtraction, so times and durations are \<open>int\<close>; \<open>bigint\<close> is \<open>int\<close>.
  Strings are \<open>string\<close>, one \<open>char\<close> standing for one UTF-16 code unit
  (transaction hashes and method names are ASCII).
\<close>

datatype flow_type = Async | Sync
  \<comment> \<open>\<open>type: "async" | "sync"\<close>\<close>

datatype flow_status = Success | Failed
  \<comment> \<open>\<open>status: "success" | "error"\<close>\<close>

text \<open>
  \<open>RPCCallLog\<close> is declared in \<open>lib/instrumented-transport\<close>, which is not among
  the sources; its fields are the ones the orchestrator reads and writes.
  \<open>PartialResult\<close> is the interface of the orchestrator's live view of a flow.
\<close>

record RPCCallLog =
  "method" :: string
  startTime :: int
  endTime :: int
  duration :: int
  isPending :: bool

record PartialResult =
  type :: flow_type
  startTime :: int
  rpcCalls :: "RPCCallLog list"
  isComplete :: bool

text \<open>
  \<open>BenchmarkResult\<close> (declared in \<open>types/benchmark\<close>, which is not among the
  sources) with the fields the two flows give it. The field \<open>rpcCalls\<close> holds the
  array that was handed to the flow: a reference, whose type is left open here.
\<close>

record 'r BenchmarkResult =
  type :: flow_type
  startTime :: int
  endTime :: int
  duration :: int
  txHash :: string
  status :: flow_status
  error :: "string option"
  rpcCalls :: 'r

text \<open>
  A value caught by \<open>catch (error)\<close>: an instance of \<open>Error\<close> with its message, or
  anything else. The message the flows report is
  \<open>error instanceof Error ? error.message : "Unknown error"\<close>.
\<close>

datatype thrown = ErrorInstance string | OtherValue

fun error_message :: "thrown \<Rightarrow> string" where
  "error_message (ErrorInstance message) = message"
| "error_message OtherValue = ''Unknown error''"

record PrefetchOptions =
  nonce :: bool
  gasParams :: bool
  chainId :: bool

record PrefetchedGas =
  maxFeePerGas :: int
  maxPriorityFeePerGas :: int
  gas :: int

text \<open>
  \<open>paymasterConfig\<close> is imported from \<open>@/config/paymaster-config\<close>, which is
  not among the sources; the flows spread it into the parameters, so it is a parameter
  of the model, with the two paymaster fields that \<open>TransactionParams\<close> declares (a
  configuration with other keys is not modelled).
\<close>

record PaymasterConfig =
  paymaster :: "string option"
  paymasterInput :: "string option"

text \<open>
  \<open>TransactionParams\<close> (types/client-types.ts), an absent optional field being
  \<open>None\<close>. The polling flow builds its parameters as an untyped object and adds
  \<open>from\<close> and \<open>chainId\<close> to the request it signs on the fast path, so the record
  has these two fields as well. The request returned by
  \<open>prepareTransactionRequest\<close> is a value of the same record.
\<close>

record TransactionParams =
  to :: string
  "value" :: int
  paymaster :: "string option"
  paymasterInput :: "string option"
  nonce :: "int option"
  maxFeePerGas :: "int option"
  maxPriorityFeePerGas :: "int option"
  gas :: "int option"
  "from" :: "string option"
  chainId :: "int option"

record Receipt =
  transactionHash :: string

record Block =
  baseFeePerGas :: "int option"

record Account =
  address :: string

text \<open>Constants of the viem library: \<open>zeroAddress\<close> and \<open>abstractTestnet.id\<close>.\<close>

definition zeroAddress :: string where
  "zeroAddress = ''0x0000000000000000000000000000000000000000''"

definition abstractTestnet_id :: int where
  "abstractTestnet_id = 11124"

subsection \<open>Clients\<close>

text \<open>
  The wallet and public clients are objects of the viem library. A method is
  modelled by what a call of it does: it settles with a value or rejects with a thrown
  value, and it may change the world \<open>'w\<close> around the flow (the loggers of its
  transport append to call logs). A call that never settles is not modelled: the
  function awaiting it then returns nothing, and the properties below are about what
  is returned. Only the methods the program calls appear;
  \<open>request_maxPriorityFeePerGas\<close> is
  \<open>publicClient.request({ method: 'eth_maxPriorityFeePerGas' })\<close>, and
  \<open>estimateGas\<close> takes the account address, the recipient and the value of its
  argument object.
\<close>

type_synonym ('a, 'w) async_op = "'w \<Rightarrow> (thrown + 'a) \<times> 'w"

record 'w ExtendedWalletClient =
  signTransaction :: "TransactionParams \<Rightarrow> (string, 'w) async_op"
  sendTransaction :: "TransactionParams \<Rightarrow> (string, 'w) async_op"
  prepareTransactionRequest :: "TransactionParams \<Rightarrow> (TransactionParams, 'w) async_op"

record 'w ExtendedPublicClient =
  sendRawTransaction :: "string \<Rightarrow> (string, 'w) async_op"
  sendRawTransactionSync :: "string \<Rightarrow> (Receipt, 'w) async_op"
  waitForTransactionReceipt :: "string \<Rightarrow> (unit, 'w) async_op"
  getBlock :: "(Block, 'w) async_op"
  request_maxPriorityFeePerGas :: "(string, 'w) async_op"
  estimateGas :: "string \<Rightarrow> string \<Rightarrow> int \<Rightarrow> (int, 'w) async_op"
  getTransactionCount :: "string \<Rightarrow> (int, 'w) async_op"

record 'w TransactionClients =
  walletClient :: "'w ExtendedWalletClient"
  publicClient :: "'w ExtendedPublicClient"

record 'w TransactionClientsWithAccount = "'w TransactionClients" +
  account :: Account

text \<open>The client calls a function makes, in the order it makes them.\<close>

datatype client_call =
    SignTransaction TransactionParams
  | SendTransaction TransactionParams
  | PrepareTransactionRequest TransactionParams
  | SendRawTransaction string
  | SendRawTransactionSync string
  | WaitForTransactionReceipt string
  | GetBlock
  | Request_maxPriorityFeePerGas
  | EstimateGas string string int
  | GetTransactionCount string

text \<open>
  The state a running function threads: how many times it has read \<open>Date.now()\<close>,
  the client calls it has awaited so far, each with the value it rejected with if it
  did, and the world. The clock is an oracle \<open>clk\<close>: \<open>clk i\<close> is what the function's
  \<open>i\<close>-th read of \<open>Date.now()\<close> returns, so that time may pass anywhere, also
  between two statements.
\<close>

record 'w run =
  reads :: nat
  invoked :: "(client_call \<times> thrown option) list"
  world :: 'w

type_synonym ('a, 'w) step = "'w run \<Rightarrow> (thrown + 'a) \<times> 'w run"

definition Date_now :: "(nat \<Rightarrow> int) \<Rightarrow> (int, 'w) step" where
  "Date_now clk s = (Inr (clk (reads s)), s\<lparr>reads := Suc (reads s)\<rparr>)"

definition rejection :: "thrown + 'a \<Rightarrow> thrown option" where
  "rejection r = (case r of Inl e \<Rightarrow> Some e | Inr _ \<Rightarrow> None)"

definition await :: "client_call \<Rightarrow> ('a, 'w) async_op \<Rightarrow> ('a, 'w) step" where
  "await c m s =
     (case m (world s) of
        (r, w) \<Rightarrow> (r, s\<lparr>invoked := invoked s @ [(c, rejection r)], world := w\<rparr>))"

text \<open>
  Sequencing inside a \<open>try\<close> block: the first statement that throws ends the block.
\<close>

definition andThen :: "('a, 'w) step \<Rightarrow> ('a \<Rightarrow> ('b, 'w) step) \<Rightarrow> ('b, 'w) step" where
  "andThen m f s = (case m s of (Inl e, s') \<Rightarrow> (Inl e, s') | (Inr a, s') \<Rightarrow> f a s')"

definition return :: "'a \<Rightarrow> ('a, 'w) step" where
  "return a s = (Inr a, s)"

section \<open>lib/benchmark-runner.ts\<close>

text \<open>
  Both flows start with the same statements: the base parameters, then
  \<open>if (prefetchOptions.nonce) txParams.nonce = nonce\<close>, then
  \<open>if (prefetchOptions.gasParams && prefetchedGas)\<close> the three gas fields.
  \<open>prefetchedGas\<close> is \<open>PrefetchedGas | null\<close>; an object is truthy, \<open>null\<close> is not.
\<close>

definition base_txParams :: "PaymasterConfig \<Rightarrow> TransactionParams" where
  "base_txParams paymasterConfig =
     \<lparr>to = zeroAddress, value = 0,
      paymaster = PaymasterConfig.paymaster paymasterConfig,
      paymasterInput = PaymasterConfig.paymasterInput paymasterConfig,
      nonce = None, maxFeePerGas = None, maxPriorityFeePerGas = None, gas = None,
      from = None, chainId = None\<rparr>"

definition add_nonce :: "PrefetchOptions \<Rightarrow> int \<Rightarrow> TransactionParams \<Rightarrow> TransactionParams" where
  "add_nonce prefetchOptions n txParams =
     (if PrefetchOptions.nonce prefetchOptions
      then txParams\<lparr>TransactionParams.nonce := Some n\<rparr> else txParams)"

definition add_gas ::
  "PrefetchOptions \<Rightarrow> PrefetchedGas option \<Rightarrow> TransactionParams \<Rightarrow> TransactionParams" where
  "add_gas prefetchOptions prefetchedGas txParams =
     (case prefetchedGas of
        Some g \<Rightarrow>
          if gasParams prefetchOptions
          then txParams\<lparr>TransactionParams.maxFeePerGas := Some (PrefetchedGas.maxFeePerGas g),
                         TransactionParams.maxPriorityFeePerGas :=
                           Some (PrefetchedGas.maxPriorityFeePerGas g),
                         TransactionParams.gas := Some (PrefetchedGas.gas g)\<rparr>
          else txParams
      | None \<Rightarrow> txParams)"

definition build_txParams ::
  "PaymasterConfig \<Rightarrow> int \<Rightarrow> PrefetchOptions \<Rightarrow> PrefetchedGas option \<Rightarrow> TransactionParams" where
  "build_txParams paymasterConfig n prefetchOptions prefetchedGas =
     add_gas prefetchOptions prefetchedGas
       (add_nonce prefetchOptions n (base_txParams paymasterConfig))"

text \<open>
  The condition of line 75:
  \<open>prefetchOptions.nonce && prefetchOptions.gasParams && prefetchOptions.chainId && prefetchedGas\<close>.
\<close>

definition all_prefetched :: "PrefetchOptions \<Rightarrow> PrefetchedGas option \<Rightarrow> bool" where
  "all_prefetched prefetchOptions prefetchedGas =
     (PrefetchOptions.nonce prefetchOptions \<and> gasParams prefetchOptions \<and>
      PrefetchOptions.chainId prefetchOptions \<and> prefetchedGas \<noteq> None)"

definition requestToSign :: "'w TransactionClientsWithAccount \<Rightarrow> TransactionParams \<Rightarrow> TransactionParams" where
  "requestToSign clients txParams =
     txParams\<lparr>from := Some (address (account clients)),
              TransactionParams.chainId := Some abstractTestnet_id\<rparr>"

text \<open>
  \<open>runAsyncTransaction\<close>, the body of its \<open>try\<close> block. Every \<open>Date.now()\<close> of
  the source is a read of the clock, also those whose value only goes to
  \<open>console.log\<close>; what \<open>console.log\<close> prints is not modelled.
\<close>

definition async_submit ::
  "(nat \<Rightarrow> int) \<Rightarrow> 'w TransactionClientsWithAccount \<Rightarrow> PrefetchOptions \<Rightarrow>
   PrefetchedGas option \<Rightarrow> TransactionParams \<Rightarrow> (string, 'w) step" where
  "async_submit clk clients prefetchOptions prefetchedGas txParams =
     (if all_prefetched prefetchOptions prefetchedGas then
        andThen (Date_now clk) (\<lambda>requestStartTime.
        andThen (Date_now clk) (\<lambda>requestEndTime.
        andThen (Date_now clk) (\<lambda>signStartTime.
        andThen (await (SignTransaction (requestToSign clients txParams))
                   (signTransaction (walletClient clients) (requestToSign clients txParams)))
          (\<lambda>serializedTransaction.
        andThen (Date_now clk) (\<lambda>signEndTime.
        andThen (Date_now clk) (\<lambda>sendStartTime.
        andThen (await (SendRawTransaction serializedTransaction)
                   (sendRawTransaction (publicClient clients) serializedTransaction))
          (\<lambda>hash.
        andThen (Date_now clk) (\<lambda>sendEndTime.
        return hash))))))))
      else
        andThen (Date_now clk) (\<lambda>sendTxStartTime.
        andThen (await (SendTransaction txParams)
                   (sendTransaction (walletClient clients) txParams))
          (\<lambda>hash.
        andThen (Date_now clk) (\<lambda>sendTxEndTime.
        return hash))))"

definition async_try ::
  "(nat \<Rightarrow> int) \<Rightarrow> PaymasterConfig \<Rightarrow> 'w TransactionClientsWithAccount \<Rightarrow> int \<Rightarrow> 'r \<Rightarrow>
   PrefetchOptions \<Rightarrow> PrefetchedGas option \<Rightarrow> int \<Rightarrow> ('r BenchmarkResult, 'w) step" where
  "async_try clk paymasterConfig clients n rpcCalls' prefetchOptions prefetchedGas startTime' =
     andThen (Date_now clk) (\<lambda>paramsStartTime.
     andThen (Date_now clk) (\<lambda>paramsEndTime.
     andThen (async_submit clk clients prefetchOptions prefetchedGas
                (build_txParams paymasterConfig n prefetchOptions prefetchedGas))
       (\<lambda>hash.
     andThen (Date_now clk) (\<lambda>waitStartTime.
     andThen (await (WaitForTransactionReceipt hash)
                (waitForTransactionReceipt (publicClient clients) hash))
       (\<lambda>_.
     andThen (Date_now clk) (\<lambda>waitEndTime.
     andThen (Date_now clk) (\<lambda>endTime.
     return \<lparr>type = Async, startTime = startTime', endTime = endTime,
             duration = endTime - startTime', txHash = hash, status = Success,
             error = None, rpcCalls = rpcCalls'\<rparr>)))))))"

text \<open>
  The \<open>catch\<close> block is shared in shape by both flows: read the clock, return the
  error result with \<open>txHash: ""\<close>.
\<close>

definition error_result ::
  "flow_type \<Rightarrow> int \<Rightarrow> int \<Rightarrow> thrown \<Rightarrow> 'r \<Rightarrow> 'r BenchmarkResult" where
  "error_result t startTime' endTime' e rpcCalls' =
     \<lparr>type = t, startTime = startTime', endTime = endTime',
      duration = endTime' - startTime', txHash = [], status = Failed,
      error = Some (error_message e), rpcCalls = rpcCalls'\<rparr>"

definition runAsyncTransaction ::
  "(nat \<Rightarrow> int) \<Rightarrow> PaymasterConfig \<Rightarrow> 'w TransactionClientsWithAccount \<Rightarrow> int \<Rightarrow> 'r \<Rightarrow>
   PrefetchOptions \<Rightarrow> PrefetchedGas option \<Rightarrow> 'w run \<Rightarrow> 'r BenchmarkResult \<times> 'w run" where
  "runAsyncTransaction clk paymasterConfig clients n rpcCalls' prefetchOptions prefetchedGas s =
     (let startTime' = clk (reads s); s1 = s\<lparr>reads := Suc (reads s)\<rparr> in
      case async_try clk paymasterConfig clients n rpcCalls' prefetchOptions prefetchedGas
             startTime' s1 of
        (Inr res, s2) \<Rightarrow> (res, s2)
      | (Inl e, s2) \<Rightarrow>
          (error_result Async startTime' (clk (reads s2)) e rpcCalls',
           s2\<lparr>reads := Suc (reads s2)\<rparr>))"

text \<open>
  \<open>runSyncTransaction\<close>: the same parameters, then always
  \<open>prepareTransactionRequest\<close>, \<open>signTransaction\<close> and \<open>sendRawTransactionSync\<close>.
\<close>

definition sync_try ::
  "(nat \<Rightarrow> int) \<Rightarrow> PaymasterConfig \<Rightarrow> 'w TransactionClientsWithAccount \<Rightarrow> int \<Rightarrow> 'r \<Rightarrow>
   PrefetchOptions \<Rightarrow> PrefetchedGas option \<Rightarrow> int \<Rightarrow> ('r BenchmarkResult, 'w) step" where
  "sync_try clk paymasterConfig clients n rpcCalls' prefetchOptions prefetchedGas startTime' =
     andThen (Date_now clk) (\<lambda>paramsStartTime.
     andThen (Date_now clk) (\<lambda>paramsEndTime.
     andThen (Date_now clk) (\<lambda>prepareStartTime.
     andThen (await (PrepareTransactionRequest
                       (build_txParams paymasterConfig n prefetchOptions prefetchedGas))
                (prepareTransactionRequest (walletClient clients)
                   (build_txParams paymasterConfig n prefetchOptions prefetchedGas)))
       (\<lambda>request.
     andThen (Date_now clk) (\<lambda>prepareEndTime.
     andThen (Date_now clk) (\<lambda>signStartTime.
     andThen (await (SignTransaction request)
                (signTransaction (walletClient clients) request))
       (\<lambda>serializedTransaction.
     andThen (Date_now clk) (\<lambda>signEndTime.
     andThen (Date_now clk) (\<lambda>sendStartTime.
     andThen (await (SendRawTransactionSync serializedTransaction)
                (sendRawTransactionSync (publicClient clients) serializedTransaction))
       (\<lambda>receipt.
     andThen (Date_now clk) (\<lambda>sendEndTime.
     andThen (Date_now clk) (\<lambda>endTime.
     return \<lparr>type = Sync, startTime = startTime', endTime = endTime,
             duration = endTime - startTime', txHash = transactionHash receipt,
             status = Success, error = None, rpcCalls = rpcCalls'\<rparr>))))))))))))"

definition runSyncTransaction ::
  "(nat \<Rightarrow> int) \<Rightarrow> PaymasterConfig \<Rightarrow> 'w TransactionClientsWithAccount \<Rightarrow> int \<Rightarrow> 'r \<Rightarrow>
   PrefetchOptions \<Rightarrow> PrefetchedGas option \<Rightarrow> 'w run \<Rightarrow> 'r BenchmarkResult \<times> 'w run" where
  "runSyncTransaction clk paymasterConfig clients n rpcCalls' prefetchOptions prefetchedGas s =
     (let startTime' = clk (reads s); s1 = s\<lparr>reads := Suc (reads s)\<rparr> in
      case sync_try clk paymasterConfig clients n rpcCalls' prefetchOptions prefetchedGas
             startTime' s1 of
        (Inr res, s2) \<Rightarrow> (res, s2)
      | (Inl e, s2) \<Rightarrow>
          (error_result Sync startTime' (clk (reads s2)) e rpcCalls',
           s2\<lparr>reads := Suc (reads s2)\<rparr>))"

subsection \<open>The second copy of the two flows (src/unnamed/part_000)\<close>

text \<open>
  The repository holds a second file with \<open>runAsyncTransaction\<close> and
  \<open>runSyncTransaction\<close>. Its statements are those of lib/benchmark-runner.ts without
  the timing reads that feed \<open>console.log\<close>: each function reads the clock for
  \<open>startTime\<close> and once more for \<open>endTime\<close>.
\<close>

definition async_submit_part000 ::
  "'w TransactionClientsWithAccount \<Rightarrow> PrefetchOptions \<Rightarrow>
   PrefetchedGas option \<Rightarrow> TransactionParams \<Rightarrow> (string, 'w) step" where
  "async_submit_part000 clients prefetchOptions prefetchedGas txParams =
     (if all_prefetched prefetchOptions prefetchedGas then
        andThen (await (SignTransaction (requestToSign clients txParams))
                   (signTransaction (walletClient clients) (requestToSign clients txParams)))
          (\<lambda>serializedTransaction.
        await (SendRawTransaction serializedTransaction)
          (sendRawTransaction (publicClient clients) serializedTransaction))
      else
        await (SendTransaction txParams) (sendTransaction (walletClient clients) txParams))"

definition async_try_part000 ::
  "(nat \<Rightarrow> int) \<Rightarrow> PaymasterConfig \<Rightarrow> 'w TransactionClientsWithAccount \<Rightarrow> int \<Rightarrow> 'r \<Rightarrow>
   PrefetchOptions \<Rightarrow> PrefetchedGas option \<Rightarrow> int \<Rightarrow> ('r BenchmarkResult, 'w) step" where
  "async_try_part000 clk paymasterConfig clients n rpcCalls' prefetchOptions prefetchedGas
     startTime' =
     andThen (async_submit_part000 clients prefetchOptions prefetchedGas
                (build_txParams paymasterConfig n prefetchOptions prefetchedGas))
       (\<lambda>hash.
     andThen (await (WaitForTransactionReceipt hash)
                (waitForTransactionReceipt (publicClient clients) hash))
       (\<lambda>_.
     andThen (Date_now clk) (\<lambda>endTime.
     return \<lparr>type = Async, startTime = startTime', endTime = endTime,
             duration = endTime - startTime', txHash = hash, status = Success,
             error = None, rpcCalls = rpcCalls'\<rparr>)))"

definition runAsyncTransaction_part000 ::
  "(nat \<Rightarrow> int) \<Rightarrow> PaymasterConfig \<Rightarrow> 'w TransactionClientsWithAccount \<Rightarrow> int \<Rightarrow> 'r \<Rightarrow>
   PrefetchOptions \<Rightarrow> PrefetchedGas option \<Rightarrow> 'w run \<Rightarrow> 'r BenchmarkResult \<times> 'w run" where
  "runAsyncTransaction_part000 clk paymasterConfig clients n rpcCalls' prefetchOptions
     prefetchedGas s =
     (let startTime' = clk (reads s); s1 = s\<lparr>reads := Suc (reads s)\<rparr> in
      case async_try_part000 clk paymasterConfig clients n rpcCalls' prefetchOptions
             prefetchedGas startTime' s1 of
        (Inr res, s2) \<Rightarrow> (res, s2)
      | (Inl e, s2) \<Rightarrow>
          (error_result Async startTime' (clk (reads s2)) e rpcCalls',
           s2\<lparr>reads := Suc (reads s2)\<rparr>))"

definition sync_try_part000 ::
  "(nat \<Rightarrow> int) \<Rightarrow> PaymasterConfig \<Rightarrow> 'w TransactionClientsWithAccount \<Rightarrow> int \<Rightarrow> 'r \<Rightarrow>
   PrefetchOptions \<Rightarrow> PrefetchedGas option \<Rightarrow> int \<Rightarrow> ('r BenchmarkResult, 'w) step" where
  "sync_try_part000 clk paymasterConfig clients n rpcCalls' prefetchOptions prefetchedGas
     startTime' =
     andThen (await (PrepareTransactionRequest
                       (build_txParams paymasterConfig n prefetchOptions prefetchedGas))
                (prepareTransactionRequest (walletClient clients)
                   (build_txParams paymasterConfig n prefetchOptions prefetchedGas)))
       (\<lambda>request.
     andThen (await (SignTransaction request)
                (signTransaction (walletClient clients) request))
       (\<lambda>serializedTransaction.
     andThen (await (SendRawTransactionSync serializedTransaction)
                (sendRawTransactionSync (publicClient clients) serializedTransaction))
       (\<lambda>receipt.
     andThen (Date_now clk) (\<lambda>endTime.
     return \<lparr>type = Sync, startTime = startTime', endTime = endTime,
             duration = endTime - startTime', txHash = transactionHash receipt,
             status = Success, error = None, rpcCalls = rpcCalls'\<rparr>))))"

definition runSyncTransaction_part000 ::
  "(nat \<Rightarrow> int) \<Rightarrow> PaymasterConfig \<Rightarrow> 'w TransactionClientsWithAccount \<Rightarrow> int \<Rightarrow> 'r \<Rightarrow>
   PrefetchOptions \<Rightarrow> PrefetchedGas option \<Rightarrow> 'w run \<Rightarrow> 'r BenchmarkResult \<times> 'w run" where
  "runSyncTransaction_part000 clk paymasterConfig clients n rpcCalls' prefetchOptions
     prefetchedGas s =
     (let startTime' = clk (reads s); s1 = s\<lparr>reads := Suc (reads s)\<rparr> in
      case sync_try_part000 clk paymasterConfig clients n rpcCalls' prefetchOptions
             prefetchedGas startTime' s1 of
        (Inr res, s2) \<Rightarrow> (res, s2)
      | (Inl e, s2) \<Rightarrow>
          (error_result Sync startTime' (clk (reads s2)) e rpcCalls',
           s2\<lparr>reads := Suc (reads s2)\<rparr>))"

section \<open>lib/format-utils.ts\<close>

text \<open>
  \<open>String.prototype.slice(start, end)\<close>: a negative index counts from the end, both
  indices are clamped to the string, an absent \<open>end\<close> is the length.
\<close>

definition slice :: "string \<Rightarrow> int \<Rightarrow> int option \<Rightarrow> string" where
  "slice s start end_opt =
     (let len = int (length s);
          from_ix = (if start < 0 then max (len + start) 0 else min start len);
          to_ix = (case end_opt of
                     None \<Rightarrow> len
                   | Some e \<Rightarrow> if e < 0 then max (len + e) 0 else min e len)
      in take (nat (to_ix - from_ix)) (drop (nat from_ix) s))"

text \<open>
  \<open>if (!hash || hash.length < 10) return hash;\<close> then the template literal
  \<open>`${hash.slice(0, 6)}...${hash.slice(-4)}`\<close>. The empty string is the only falsy
  value of type string.
\<close>

definition truncateHash :: "string \<Rightarrow> string" where
  "truncateHash hash =
     (if hash = [] \<or> length hash < 10 then hash
      else slice hash 0 (Some 6) @ ''...'' @ slice hash (- 4) None)"

section \<open>components/ComparisonCard.tsx\<close>

text \<open>
  The two values the component derives from its props before rendering:
  \<open>winner\<close> and \<open>timeDifference\<close>.
\<close>

record comparison =
  winner :: string
  timeDifference :: int

definition ComparisonCard :: "'r BenchmarkResult \<Rightarrow> 'r BenchmarkResult \<Rightarrow> comparison" where
  "ComparisonCard asyncResult syncResult =
     \<lparr>winner = (if duration syncResult < duration asyncResult
                then ''Sync (EIP-7966)'' else ''Async''),
      timeDifference = \<bar>duration asyncResult - duration syncResult\<bar>\<rparr>"

text \<open>
  The result a winner label stands for: \<open>Sync (EIP-7966)\<close> is the card's
  \<open>syncResult\<close>, \<open>Async\<close> its \<open>asyncResult\<close>.
\<close>

definition winning_result :: "'r BenchmarkResult \<Rightarrow> 'r BenchmarkResult \<Rightarrow> 'r BenchmarkResult" where
  "winning_result asyncResult syncResult =
     (if winner (ComparisonCard asyncResult syncResult) = ''Sync (EIP-7966)''
      then syncResult else asyncResult)"

section \<open>The instrumented transport and lib/benchmark-clients.ts\<close>

text \<open>
  What the network and the viem code above the transport do is not part of the
  program. A \<open>reply\<close> gives, for one call of a client method, the transport events of
  the requests it sends, in the order the transport reports them, and how the call
  settles. The loggers are the two callbacks \<open>createBenchmarkClients\<close> passes on to
  the transport; the start logger is optional.
\<close>

datatype rpc_event = CallStarted string int | CallCompleted string int int

type_synonym 'a reply = "rpc_event list \<times> (thrown + 'a)"

type_synonym 'w rpcCallLogger = "RPCCallLog \<Rightarrow> 'w \<Rightarrow> 'w"

type_synonym 'w rpcStartLogger = "string \<Rightarrow> int \<Rightarrow> 'w \<Rightarrow> 'w"

text \<open>
  Modelled from the spec: what the instrumented transport reports for one event
  (\<open>lib/instrumented-transport\<close> is not among the sources). Section 4.1: before
  forwarding a call the transport reports "call started" with the method and the start
  timestamp to the start observer, if one was supplied; after the call settles it
  reports "call completed" with method, start, end and duration = end - start to the
  completion observer.
\<close>

fun report :: "'w rpcCallLogger \<Rightarrow> 'w rpcStartLogger option \<Rightarrow> rpc_event \<Rightarrow> 'w \<Rightarrow> 'w" where
  "report rpcCallLogger rpcStartLogger (CallStarted m t) w =
     (case rpcStartLogger of None \<Rightarrow> w | Some f \<Rightarrow> f m t w)"
| "report rpcCallLogger rpcStartLogger (CallCompleted m t t') w =
     rpcCallLogger \<lparr>method = m, RPCCallLog.startTime = t, RPCCallLog.endTime = t',
                    RPCCallLog.duration = t' - t, isPending = False\<rparr> w"

text \<open>
  Modelled from the spec: \<open>createInstrumentedTransport\<close> of
  \<open>lib/instrumented-transport\<close>, which is not among the sources. A client method
  whose transport was created with the two loggers reports the events of its reply to
  them, one after the other, and settles as the reply says. The source passes the URL
  of the endpoint, the \<open>prefetchChainId\<close> flag and the chain identifier as well; here
  they are what the replies of the network depend on.
\<close>

definition createInstrumentedTransport ::
  "'w rpcCallLogger \<Rightarrow> 'w rpcStartLogger option \<Rightarrow> 'a reply \<Rightarrow> ('a, 'w) async_op" where
  "createInstrumentedTransport rpcCallLogger rpcStartLogger rep w =
     (snd rep, foldl (\<lambda>w' ev. report rpcCallLogger rpcStartLogger ev w') w (fst rep))"

text \<open>
  The network: one reply per client method and arguments. The wallet client is made
  for an account and its transport gets the \<open>prefetchChainId\<close> flag, so its replies
  may depend on both; the public client's transport is created without the flag.
\<close>

record network =
  net_signTransaction :: "Account \<Rightarrow> bool \<Rightarrow> TransactionParams \<Rightarrow> string reply"
  net_sendTransaction :: "Account \<Rightarrow> bool \<Rightarrow> TransactionParams \<Rightarrow> string reply"
  net_prepareTransactionRequest ::
    "Account \<Rightarrow> bool \<Rightarrow> TransactionParams \<Rightarrow> TransactionParams reply"
  net_sendRawTransaction :: "string \<Rightarrow> string reply"
  net_sendRawTransactionSync :: "string \<Rightarrow> Receipt reply"
  net_waitForTransactionReceipt :: "string \<Rightarrow> unit reply"
  net_getBlock :: "Block reply"
  net_maxPriorityFeePerGas :: "string reply"
  net_estimateGas :: "string \<Rightarrow> string \<Rightarrow> int \<Rightarrow> int reply"
  net_getTransactionCount :: "string \<Rightarrow> int reply"

definition createBenchmarkClients ::
  "network \<Rightarrow> Account \<Rightarrow> 'w rpcCallLogger \<Rightarrow> 'w rpcStartLogger option \<Rightarrow> bool \<Rightarrow>
   'w TransactionClients" where
  "createBenchmarkClients net account' rpcCallLogger rpcStartLogger prefetchChainId =
     \<lparr>walletClient =
        \<lparr>signTransaction = (\<lambda>req. createInstrumentedTransport rpcCallLogger rpcStartLogger
             (net_signTransaction net account' prefetchChainId req)),
         sendTransaction = (\<lambda>req. createInstrumentedTransport rpcCallLogger rpcStartLogger
             (net_sendTransaction net account' prefetchChainId req)),
         prepareTransactionRequest = (\<lambda>req. createInstrumentedTransport rpcCallLogger
             rpcStartLogger (net_prepareTransactionRequest net account' prefetchChainId req))\<rparr>,
      publicClient =
        \<lparr>sendRawTransaction = (\<lambda>tx. createInstrumentedTransport rpcCallLogger rpcStartLogger
             (net_sendRawTransaction net tx)),
         sendRawTransactionSync = (\<lambda>tx. createInstrumentedTransport rpcCallLogger
             rpcStartLogger (net_sendRawTransactionSync net tx)),
         waitForTransactionReceipt = (\<lambda>h. createInstrumentedTransport rpcCallLogger
             rpcStartLogger (net_waitForTransactionReceipt net h)),
         getBlock = createInstrumentedTransport rpcCallLogger rpcStartLogger (net_getBlock net),
         request_maxPriorityFeePerGas = createInstrumentedTransport rpcCallLogger
             rpcStartLogger (net_maxPriorityFeePerGas net),
         estimateGas = (\<lambda>a t v. createInstrumentedTransport rpcCallLogger rpcStartLogger
             (net_estimateGas net a t v)),
         getTransactionCount = (\<lambda>a. createInstrumentedTransport rpcCallLogger rpcStartLogger
             (net_getTransactionCount net a))\<rparr>\<rparr>"

text \<open>\<open>{ ...clients, account }\<close>\<close>

definition with_account :: "'w TransactionClients \<Rightarrow> Account \<Rightarrow> 'w TransactionClientsWithAccount" where
  "with_account clients a =
     \<lparr>walletClient = walletClient clients, publicClient = publicClient clients, account = a\<rparr>"

section \<open>The orchestrator: runBenchmark of TransactionBenchmark\<close>

text \<open>
  The state \<open>runBenchmark\<close> works on: the component's state variables and the two
  arrays \<open>asyncRPCCalls\<close> and \<open>syncRPCCalls\<close> of the run. A \<open>BenchmarkResult\<close>
  refers to its array by name. A state setter takes effect at once. The elapsed-time
  display (\<open>asyncElapsed\<close>, \<open>syncElapsed\<close> and the two interval timers) is not
  modelled. The two accounts come from \<open>generatePrivateKey\<close> and are parameters.
\<close>

datatype array_ref = AsyncRPCCalls | SyncRPCCalls

record app_state =
  isRunning :: bool
  isPreparing :: bool
  asyncResult :: "array_ref BenchmarkResult option"
  syncResult :: "array_ref BenchmarkResult option"
  asyncPartial :: "PartialResult option"
  syncPartial :: "PartialResult option"
  asyncRPCCalls :: "RPCCallLog list"
  syncRPCCalls :: "RPCCallLog list"

text \<open>The array a reference names, as it is in a state.\<close>

fun array_of :: "app_state \<Rightarrow> array_ref \<Rightarrow> RPCCallLog list" where
  "array_of st AsyncRPCCalls = asyncRPCCalls st"
| "array_of st SyncRPCCalls = syncRPCCalls st"

text \<open>\<open>Array.prototype.findIndex\<close>: the first index whose element passes, or -1.\<close>

fun findIndex_from :: "('a \<Rightarrow> bool) \<Rightarrow> 'a list \<Rightarrow> int \<Rightarrow> int" where
  "findIndex_from P [] i = - 1"
| "findIndex_from P (x # xs) i = (if P x then i else findIndex_from P xs (i + 1))"

definition findIndex :: "('a \<Rightarrow> bool) \<Rightarrow> 'a list \<Rightarrow> int" where
  "findIndex P xs = findIndex_from P xs 0"

text \<open>
  The two callbacks handed to \<open>createBenchmarkClients\<close> for a flow, as they act on
  the flow's array; the four loggers below apply them to \<open>asyncRPCCalls\<close> or
  \<open>syncRPCCalls\<close> and copy the array into the flow's partial result if there is one.
\<close>

definition completed :: "RPCCallLog \<Rightarrow> RPCCallLog list \<Rightarrow> RPCCallLog list" where
  "completed log calls =
     (let pendingIndex = findIndex
            (\<lambda>call. method call = method log \<and> isPending call \<and>
                     RPCCallLog.startTime call = RPCCallLog.startTime log) calls
      in if pendingIndex \<ge> 0 then calls[nat pendingIndex := log\<lparr>isPending := False\<rparr>]
         else calls @ [log\<lparr>isPending := False\<rparr>])"

definition started :: "string \<Rightarrow> int \<Rightarrow> RPCCallLog list \<Rightarrow> RPCCallLog list" where
  "started m t calls =
     calls @ [\<lparr>method = m, RPCCallLog.startTime = t, RPCCallLog.endTime = 0,
               RPCCallLog.duration = 0, isPending = True\<rparr>]"

definition set_partial_calls :: "RPCCallLog list \<Rightarrow> PartialResult option \<Rightarrow> PartialResult option" where
  "set_partial_calls calls prev =
     (case prev of Some p \<Rightarrow> Some (p\<lparr>PartialResult.rpcCalls := calls\<rparr>) | None \<Rightarrow> None)"

definition asyncCallLogger :: "app_state rpcCallLogger" where
  "asyncCallLogger log st =
     (let calls = completed log (asyncRPCCalls st)
      in st\<lparr>asyncRPCCalls := calls,
            asyncPartial := set_partial_calls calls (asyncPartial st)\<rparr>)"

definition asyncStartLogger :: "app_state rpcStartLogger" where
  "asyncStartLogger m t st =
     (let calls = started m t (asyncRPCCalls st)
      in st\<lparr>asyncRPCCalls := calls,
            asyncPartial := set_partial_calls calls (asyncPartial st)\<rparr>)"

definition syncCallLogger :: "app_state rpcCallLogger" where
  "syncCallLogger log st =
     (let calls = completed log (syncRPCCalls st)
      in st\<lparr>syncRPCCalls := calls,
            syncPartial := set_partial_calls calls (syncPartial st)\<rparr>)"

definition syncStartLogger :: "app_state rpcStartLogger" where
  "syncStartLogger m t st =
     (let calls = started m t (syncRPCCalls st)
      in st\<lparr>syncRPCCalls := calls,
            syncPartial := set_partial_calls calls (syncPartial st)\<rparr>)"

text \<open>\<open>() => {}\<close>, the logger of the temporary clients.\<close>

definition emptyLogger :: "app_state rpcCallLogger" where
  "emptyLogger log st = st"

text \<open>
  \<open>await Promise.all([p, q])\<close>: both calls are made whatever the other does; the
  result is the pair of values, or a rejection if one of them rejects. The two calls are
  run one after the other here. When both reject, the source passes on the reason of
  the one that rejected first in time; the model passes on the first in array order
  (\<open>runBenchmark\<close> never looks at the reason).
\<close>

definition Promise_all :: "('a, 'w) step \<Rightarrow> ('b, 'w) step \<Rightarrow> ('a \<times> 'b, 'w) step" where
  "Promise_all p q s =
     (case p s of
        (r1, s1) \<Rightarrow>
          (case q s1 of
             (r2, s2) \<Rightarrow>
               ((case r1 of
                   Inl e \<Rightarrow> Inl e
                 | Inr a \<Rightarrow> (case r2 of Inl e \<Rightarrow> Inl e | Inr b \<Rightarrow> Inr (a, b))),
                s2)))"

definition throw :: "thrown \<Rightarrow> ('a, 'w) step" where
  "throw e s = (Inl e, s)"

definition setState :: "('w \<Rightarrow> 'w) \<Rightarrow> (unit, 'w) step" where
  "setState f s = (Inr (), s\<lparr>world := f (world s)\<rparr>)"

text \<open>
  The gas prefetch, the same statements in both versions of \<open>runBenchmark\<close>.
  \<open>BigInt\<close> is the JavaScript built-in, a parameter here: it yields the number a string
  denotes or throws. \<open>block.baseFeePerGas ? ... : ...\<close> tests a
  \<open>bigint | null\<close>: \<open>null\<close> and \<open>0n\<close> are falsy.
\<close>

definition prefetch_gas ::
  "(string \<Rightarrow> thrown + int) \<Rightarrow> network \<Rightarrow> Account \<Rightarrow> PrefetchOptions \<Rightarrow>
   (PrefetchedGas option, app_state) step" where
  "prefetch_gas BigInt net asyncAccount prefetchOptions =
     (if gasParams prefetchOptions then
        (let prefetchClients = createBenchmarkClients net asyncAccount emptyLogger None
                                 (PrefetchOptions.chainId prefetchOptions)
         in andThen
              (Promise_all
                 (await GetBlock (getBlock (publicClient prefetchClients)))
                 (Promise_all
                    (await Request_maxPriorityFeePerGas
                       (request_maxPriorityFeePerGas (publicClient prefetchClients)))
                    (await (EstimateGas (address asyncAccount) zeroAddress 0)
                       (estimateGas (publicClient prefetchClients) (address asyncAccount)
                          zeroAddress 0))))
              (\<lambda>(block, maxPriorityFee, gasEstimate).
                 case BigInt maxPriorityFee of
                   Inl e \<Rightarrow> throw e
                 | Inr fee \<Rightarrow>
                     return (Some
                       \<lparr>PrefetchedGas.maxFeePerGas =
                          (case baseFeePerGas block of
                             Some base \<Rightarrow> if base \<noteq> 0 then base + fee else fee
                           | None \<Rightarrow> fee),
                        PrefetchedGas.maxPriorityFeePerGas = fee,
                        PrefetchedGas.gas = gasEstimate\<rparr>)))
      else return None)"

text \<open>What \<open>runBenchmark\<close> has in hand when it calls the two flows.\<close>

record launch =
  prefetchedGas :: "PrefetchedGas option"
  asyncClients :: "app_state TransactionClients"
  syncClients :: "app_state TransactionClients"
  asyncNonce :: int
  syncNonce :: int
  asyncStartTime :: int
  syncStartTime :: int

subsection \<open>runBenchmark with the Preparing state (src/unnamed/part\_001)\<close>

definition fetch_nonces_temp ::
  "network \<Rightarrow> Account \<Rightarrow> Account \<Rightarrow> PrefetchOptions \<Rightarrow> (int \<times> int, app_state) step" where
  "fetch_nonces_temp net asyncAccount syncAccount prefetchOptions =
     (if \<not> PrefetchOptions.nonce prefetchOptions then
        (let tempAsyncClient = createBenchmarkClients net asyncAccount emptyLogger None
                                 (PrefetchOptions.chainId prefetchOptions);
             tempSyncClient = createBenchmarkClients net syncAccount emptyLogger None
                                (PrefetchOptions.chainId prefetchOptions)
         in Promise_all
              (await (GetTransactionCount (address asyncAccount))
                 (getTransactionCount (publicClient tempAsyncClient) (address asyncAccount)))
              (await (GetTransactionCount (address syncAccount))
                 (getTransactionCount (publicClient tempSyncClient) (address syncAccount))))
      else return (0, 0))"

text \<open>Lines 34 to 174: everything before the two flows are called.\<close>

definition runBenchmark_setup ::
  "(nat \<Rightarrow> int) \<Rightarrow> (string \<Rightarrow> thrown + int) \<Rightarrow> network \<Rightarrow> Account \<Rightarrow> Account \<Rightarrow>
   PrefetchOptions \<Rightarrow> (launch, app_state) step" where
  "runBenchmark_setup clk BigInt net asyncAccount syncAccount prefetchOptions =
     andThen (setState (\<lambda>st. st\<lparr>isPreparing := True, isRunning := False,
                                 asyncResult := None, syncResult := None,
                                 asyncRPCCalls := [], syncRPCCalls := []\<rparr>)) (\<lambda>_.
     andThen (prefetch_gas BigInt net asyncAccount prefetchOptions) (\<lambda>gas'.
     andThen (fetch_nonces_temp net asyncAccount syncAccount prefetchOptions)
       (\<lambda>(asyncNonce', syncNonce').
     andThen (Date_now clk) (\<lambda>asyncStartTime'.
     andThen (Date_now clk) (\<lambda>syncStartTime'.
     andThen (setState (\<lambda>st. st\<lparr>isPreparing := False, isRunning := True,
                 asyncPartial := Some \<lparr>PartialResult.type = Async,
                    PartialResult.startTime = asyncStartTime',
                    PartialResult.rpcCalls = [], isComplete = False\<rparr>,
                 syncPartial := Some \<lparr>PartialResult.type = Sync,
                    PartialResult.startTime = syncStartTime',
                    PartialResult.rpcCalls = [], isComplete = False\<rparr>\<rparr>)) (\<lambda>_.
     return \<lparr>prefetchedGas = gas',
             asyncClients = createBenchmarkClients net asyncAccount asyncCallLogger
                              (Some asyncStartLogger) (PrefetchOptions.chainId prefetchOptions),
             syncClients = createBenchmarkClients net syncAccount syncCallLogger
                             (Some syncStartLogger) (PrefetchOptions.chainId prefetchOptions),
             asyncNonce = asyncNonce', syncNonce = syncNonce',
             asyncStartTime = asyncStartTime', syncStartTime = syncStartTime'\<rparr>))))))"

text \<open>
  Lines 186 to 220: the two flows and their \<open>then\<close> callbacks. The flows run
  interleaved in the source. Each has its own clients, its own array and its own state
  variables, and each reads the clock through its own oracle, so the model runs the
  polling flow to its end and then the synchronous one. The result: the final state
  with the client calls of the polling flow and of the synchronous flow.
\<close>

record flows_run =
  final :: app_state
  async_calls :: "(client_call \<times> thrown option) list"
  sync_calls :: "(client_call \<times> thrown option) list"
  sync_start :: app_state

definition runBenchmark_flows ::
  "(nat \<Rightarrow> int) \<Rightarrow> (nat \<Rightarrow> int) \<Rightarrow> PaymasterConfig \<Rightarrow> Account \<Rightarrow> Account \<Rightarrow>
   PrefetchOptions \<Rightarrow> launch \<Rightarrow> app_state \<Rightarrow> flows_run" where
  "runBenchmark_flows clkA clkS paymasterConfig asyncAccount syncAccount prefetchOptions l st =
     (case runAsyncTransaction clkA paymasterConfig
             (with_account (asyncClients l) asyncAccount) (asyncNonce l) AsyncRPCCalls
             prefetchOptions (prefetchedGas l) \<lparr>reads = 0, invoked = [], world = st\<rparr> of
        (resA, sA) \<Rightarrow>
          (let stA = (world sA)\<lparr>asyncPartial := None, asyncResult := Some resA\<rparr> in
           case runSyncTransaction clkS paymasterConfig
                  (with_account (syncClients l) syncAccount) (syncNonce l) SyncRPCCalls
                  prefetchOptions (prefetchedGas l) \<lparr>reads = 0, invoked = [], world = stA\<rparr> of
             (resS, sS) \<Rightarrow>
               \<lparr>final = (world sS)\<lparr>syncPartial := None, syncResult := Some resS,
                                    isRunning := False\<rparr>,
                async_calls = invoked sA, sync_calls = invoked sS, sync_start = stA\<rparr>))"

text \<open>
  \<open>runBenchmark\<close>: \<open>clk\<close> is the clock as \<open>runBenchmark\<close> itself reads it,
  \<open>clkA\<close> and \<open>clkS\<close> as the two flows read it. A rejected \<open>await\<close> of the setup
  rejects \<open>runBenchmark\<close>, with the state as it is then.
\<close>

definition runBenchmark ::
  "(nat \<Rightarrow> int) \<Rightarrow> (nat \<Rightarrow> int) \<Rightarrow> (nat \<Rightarrow> int) \<Rightarrow> (string \<Rightarrow> thrown + int) \<Rightarrow>
   PaymasterConfig \<Rightarrow> network \<Rightarrow> Account \<Rightarrow> Account \<Rightarrow> PrefetchOptions \<Rightarrow> app_state \<Rightarrow>
   thrown + flows_run" where
  "runBenchmark clk clkA clkS BigInt paymasterConfig net asyncAccount syncAccount
     prefetchOptions st =
     (case runBenchmark_setup clk BigInt net asyncAccount syncAccount prefetchOptions
             \<lparr>reads = 0, invoked = [], world = st\<rparr> of
        (Inl e, s) \<Rightarrow> Inl e
      | (Inr l, s) \<Rightarrow>
          Inr (runBenchmark_flows clkA clkS paymasterConfig asyncAccount syncAccount
                 prefetchOptions l (world s)))"

subsection \<open>runBenchmark without the Preparing state (src/unnamed/part\_002)\<close>

text \<open>
  The other version of the component has no \<open>isPreparing\<close>. It reads the two start
  times and sets the partial results first, fetches the starting nonces through the
  flows' own clients, and its \<open>then\<close> callbacks replace the duration of the result by
  \<open>Date.now() - asyncStartTime\<close> (\<open>syncStartTime\<close>) before publishing it.
\<close>

definition fetch_nonces_own ::
  "network \<Rightarrow> Account \<Rightarrow> Account \<Rightarrow> PrefetchOptions \<Rightarrow>
   app_state TransactionClients \<Rightarrow> app_state TransactionClients \<Rightarrow>
   (int \<times> int, app_state) step" where
  "fetch_nonces_own net asyncAccount syncAccount prefetchOptions asyncClients' syncClients' =
     (if \<not> PrefetchOptions.nonce prefetchOptions then
        Promise_all
          (await (GetTransactionCount (address asyncAccount))
             (getTransactionCount (publicClient asyncClients') (address asyncAccount)))
          (await (GetTransactionCount (address syncAccount))
             (getTransactionCount (publicClient syncClients') (address syncAccount)))
      else return (0, 0))"

text \<open>Lines 39 to 173.\<close>

definition runBenchmark_setup_part002 ::
  "(nat \<Rightarrow> int) \<Rightarrow> (string \<Rightarrow> thrown + int) \<Rightarrow> network \<Rightarrow> Account \<Rightarrow> Account \<Rightarrow>
   PrefetchOptions \<Rightarrow> (launch, app_state) step" where
  "runBenchmark_setup_part002 clk BigInt net asyncAccount syncAccount prefetchOptions =
     andThen (setState (\<lambda>st. st\<lparr>isRunning := True,
                                 asyncResult := None, syncResult := None,
                                 asyncRPCCalls := [], syncRPCCalls := []\<rparr>)) (\<lambda>_.
     andThen (Date_now clk) (\<lambda>asyncStartTime'.
     andThen (Date_now clk) (\<lambda>syncStartTime'.
     andThen (setState (\<lambda>st. st\<lparr>
                 asyncPartial := Some \<lparr>PartialResult.type = Async,
                    PartialResult.startTime = asyncStartTime',
                    PartialResult.rpcCalls = [], isComplete = False\<rparr>,
                 syncPartial := Some \<lparr>PartialResult.type = Sync,
                    PartialResult.startTime = syncStartTime',
                    PartialResult.rpcCalls = [], isComplete = False\<rparr>\<rparr>)) (\<lambda>_.
     andThen (prefetch_gas BigInt net asyncAccount prefetchOptions) (\<lambda>gas'.
     (let asyncClients' = createBenchmarkClients net asyncAccount asyncCallLogger
                            (Some asyncStartLogger) (PrefetchOptions.chainId prefetchOptions);
          syncClients' = createBenchmarkClients net syncAccount syncCallLogger
                           (Some syncStartLogger) (PrefetchOptions.chainId prefetchOptions)
      in
     andThen (fetch_nonces_own net asyncAccount syncAccount prefetchOptions
                asyncClients' syncClients')
       (\<lambda>(asyncNonce', syncNonce').
     return \<lparr>prefetchedGas = gas',
             asyncClients = asyncClients', syncClients = syncClients',
             asyncNonce = asyncNonce', syncNonce = syncNonce',
             asyncStartTime = asyncStartTime', syncStartTime = syncStartTime'\<rparr>)))))))"

text \<open>
  Lines 177 to 215. \<open>settledA\<close> and \<open>settledS\<close> are what \<open>Date.now()\<close> returns in
  the \<open>then\<close> callback of the polling flow and of the synchronous flow.
\<close>

definition runBenchmark_flows_part002 ::
  "(nat \<Rightarrow> int) \<Rightarrow> (nat \<Rightarrow> int) \<Rightarrow> int \<Rightarrow> int \<Rightarrow> PaymasterConfig \<Rightarrow> Account \<Rightarrow> Account \<Rightarrow>
   PrefetchOptions \<Rightarrow> launch \<Rightarrow> app_state \<Rightarrow> flows_run" where
  "runBenchmark_flows_part002 clkA clkS settledA settledS paymasterConfig asyncAccount
     syncAccount prefetchOptions l st =
     (case runAsyncTransaction clkA paymasterConfig
             (with_account (asyncClients l) asyncAccount) (asyncNonce l) AsyncRPCCalls
             prefetchOptions (prefetchedGas l) \<lparr>reads = 0, invoked = [], world = st\<rparr> of
        (resA, sA) \<Rightarrow>
          (let finalResultA = resA\<lparr>duration := settledA - asyncStartTime l\<rparr>;
               stA = (world sA)\<lparr>asyncPartial := None, asyncResult := Some finalResultA\<rparr> in
           case runSyncTransaction clkS paymasterConfig
                  (with_account (syncClients l) syncAccount) (syncNonce l) SyncRPCCalls
                  prefetchOptions (prefetchedGas l) \<lparr>reads = 0, invoked = [], world = stA\<rparr> of
             (resS, sS) \<Rightarrow>
               (let finalResultS = resS\<lparr>duration := settledS - syncStartTime l\<rparr> in
                \<lparr>final = (world sS)\<lparr>syncPartial := None, syncResult := Some finalResultS,
                                     isRunning := False\<rparr>,
                 async_calls = invoked sA, sync_calls = invoked sS, sync_start = stA\<rparr>)))"

definition runBenchmark_part002 ::
  "(nat \<Rightarrow> int) \<Rightarrow> (nat \<Rightarrow> int) \<Rightarrow> (nat \<Rightarrow> int) \<Rightarrow> int \<Rightarrow> int \<Rightarrow> (string \<Rightarrow> thrown + int) \<Rightarrow>
   PaymasterConfig \<Rightarrow> network \<Rightarrow> Account \<Rightarrow> Account \<Rightarrow> PrefetchOptions \<Rightarrow> app_state \<Rightarrow>
   thrown + flows_run" where
  "runBenchmark_part002 clk clkA clkS settledA settledS BigInt paymasterConfig net
     asyncAccount syncAccount prefetchOptions st =
     (case runBenchmark_setup_part002 clk BigInt net asyncAccount syncAccount prefetchOptions
             \<lparr>reads = 0, invoked = [], world = st\<rparr> of
        (Inl e, s) \<Rightarrow> Inl e
      | (Inr l, s) \<Rightarrow>
          Inr (runBenchmark_flows_part002 clkA clkS settledA settledS paymasterConfig
                 asyncAccount syncAccount prefetchOptions l (world s)))"

section \<open>Observations used in the statements\<close>

text \<open>The value the first rejected call of a trace rejected with, if any call did.\<close>

fun first_rejection :: "(client_call \<times> thrown option) list \<Rightarrow> thrown option" where
  "first_rejection [] = None"
| "first_rejection ((c, Some e) # cs) = Some e"
| "first_rejection ((c, None) # cs) = first_rejection cs"

text \<open>
  How a flow settles, read off its result and its trace. If a call rejected, the result
  is the error result: status error, the message of the value the call rejected with,
  the empty string as hash, the array the flow was given, and the rejected call is the
  last call the flow made. If no call rejected, the result is a success without error
  message, with the array the flow was given.
\<close>

definition settles :: "flow_type \<Rightarrow> 'r \<Rightarrow> 'r BenchmarkResult \<times> 'w run \<Rightarrow> bool" where
  "settles t r out =
     (case first_rejection (invoked (snd out)) of
        Some e \<Rightarrow>
          status (fst out) = Failed \<and> error (fst out) = Some (error_message e) \<and>
          txHash (fst out) = [] \<and> rpcCalls (fst out) = r \<and> type (fst out) = t \<and>
          snd (last (invoked (snd out))) = Some e
      | None \<Rightarrow>
          status (fst out) = Success \<and> error (fst out) = None \<and>
          rpcCalls (fst out) = r \<and> type (fst out) = t)"

text \<open>
  The array that results from reporting a list of transport events to the two callbacks
  of a flow.
\<close>

fun log_events :: "rpc_event list \<Rightarrow> RPCCallLog list \<Rightarrow> RPCCallLog list" where
  "log_events [] calls = calls"
| "log_events (CallStarted m t # evs) calls = log_events evs (started m t calls)"
| "log_events (CallCompleted m t t' # evs) calls =
     log_events evs
       (completed \<lparr>method = m, RPCCallLog.startTime = t, RPCCallLog.endTime = t',
                   RPCCallLog.duration = t' - t, isPending = False\<rparr> calls)"

text \<open>What the loggers of one flow leave alone.\<close>

definition beside_async :: "app_state \<Rightarrow> bool \<times> bool \<times> array_ref BenchmarkResult option \<times>
    array_ref BenchmarkResult option \<times> PartialResult option \<times> RPCCallLog list" where
  "beside_async w =
     (isRunning w, isPreparing w, asyncResult w, syncResult w, syncPartial w, syncRPCCalls w)"

definition beside_sync :: "app_state \<Rightarrow> bool \<times> bool \<times> array_ref BenchmarkResult option \<times>
    array_ref BenchmarkResult option \<times> PartialResult option \<times> RPCCallLog list" where
  "beside_sync w =
     (isRunning w, isPreparing w, asyncResult w, syncResult w, asyncPartial w, asyncRPCCalls w)"

text \<open>
  The timing invariant of a result: the duration is the difference of the two
  timestamps, and it is not negative if the clock the flow read never went back.
\<close>

definition well_timed :: "(nat \<Rightarrow> int) \<Rightarrow> 'r BenchmarkResult \<Rightarrow> bool" where
  "well_timed clk res =
     (duration res = endTime res - startTime res \<and> (mono clk \<longrightarrow> 0 \<le> duration res))"

text \<open>
  Concrete inputs for the closed theorems: a paymaster configuration, an account, the
  two prefetch configurations of interest, a gas snapshot, and clients whose calls all
  settle except that waiting for the receipt times out.
\<close>

definition demo_paymaster :: PaymasterConfig where
  "demo_paymaster =
     \<lparr>PaymasterConfig.paymaster = Some ''0xpm'', PaymasterConfig.paymasterInput = Some ''0x''\<rparr>"

definition prefetch_all :: PrefetchOptions where
  "prefetch_all =
     \<lparr>PrefetchOptions.nonce = True, gasParams = True, PrefetchOptions.chainId = True\<rparr>"

definition prefetch_none :: PrefetchOptions where
  "prefetch_none =
     \<lparr>PrefetchOptions.nonce = False, gasParams = False, PrefetchOptions.chainId = False\<rparr>"

definition demo_gas :: PrefetchedGas where
  "demo_gas = \<lparr>PrefetchedGas.maxFeePerGas = 100, PrefetchedGas.maxPriorityFeePerGas = 10,
               PrefetchedGas.gas = 21000\<rparr>"

definition demo_clients :: "unit TransactionClientsWithAccount" where
  "demo_clients =
     \<lparr>walletClient =
        \<lparr>signTransaction = (\<lambda>req w. (Inr ''0xsigned'', w)),
         sendTransaction = (\<lambda>req w. (Inr ''0xhash1'', w)),
         prepareTransactionRequest = (\<lambda>req w. (Inr req, w))\<rparr>,
      publicClient =
        \<lparr>sendRawTransaction = (\<lambda>tx w. (Inr ''0xhash2'', w)),
         sendRawTransactionSync = (\<lambda>tx w. (Inr \<lparr>transactionHash = ''0xhash3''\<rparr>, w)),
         waitForTransactionReceipt = (\<lambda>h w. (Inl (ErrorInstance ''timed out''), w)),
         getBlock = (\<lambda>w. (Inr \<lparr>baseFeePerGas = None\<rparr>, w)),
         request_maxPriorityFeePerGas = (\<lambda>w. (Inr ''0xa'', w)),
         estimateGas = (\<lambda>a t v w. (Inr 21000, w)),
         getTransactionCount = (\<lambda>a w. (Inr 0, w))\<rparr>,
      account = \<lparr>address = ''0xabc''\<rparr>\<rparr>"

text \<open>Three completed results: two of equal duration, one faster.\<close>

definition demo_result_a :: "unit BenchmarkResult" where
  "demo_result_a =
     \<lparr>type = Async, startTime = 1000, endTime = 1100, duration = 100, txHash = ''0xaaa'',
      status = Success, error = None, rpcCalls = ()\<rparr>"

definition demo_result_b :: "unit BenchmarkResult" where
  "demo_result_b =
     \<lparr>type = Sync, startTime = 1000, endTime = 1100, duration = 100, txHash = ''0xbbb'',
      status = Success, error = None, rpcCalls = ()\<rparr>"

definition demo_result_c :: "unit BenchmarkResult" where
  "demo_result_c =
     \<lparr>type = Sync, startTime = 1000, endTime = 1040, duration = 40, txHash = ''0xccc'',
      status = Success, error = None, rpcCalls = ()\<rparr>"

definition demo_clock :: "nat \<Rightarrow> int" where
  "demo_clock i = 1000 + 10 * int i"

definition demo_start :: "unit run" where
  "demo_start = \<lparr>reads = 0, invoked = [], world = ()\<rparr>"

text \<open>
  A network on which every call settles, with the transport events of each call, the
  \<open>BigInt\<close> of the one fee string it returns, two accounts and an initial state.
  The set-up queries run from 1011 to 1018 and the flows read the clock from 1020 on
  (\<open>demo_flow_clock\<close>). The orchestrator without the Preparing state reads its two
  start times before the set-up (\<open>demo_clock\<close>: 1000 and 1010), the one with the
  Preparing state after it (\<open>demo_prepared_clock\<close>: 1018 and 1019).
\<close>

definition demo_async_account :: Account where
  "demo_async_account = \<lparr>address = ''0xa11''\<rparr>"

definition demo_sync_account :: Account where
  "demo_sync_account = \<lparr>address = ''0xb22''\<rparr>"

definition demo_BigInt :: "string \<Rightarrow> thrown + int" where
  "demo_BigInt str = (if str = ''0xa'' then Inr 10 else Inl (ErrorInstance ''SyntaxError''))"

definition demo_net :: network where
  "demo_net =
     \<lparr>net_signTransaction = (\<lambda>a c req. ([], Inr ''0xsigned'')),
      net_sendTransaction = (\<lambda>a c req.
        ([CallStarted ''eth_sendRawTransaction'' 1052,
          CallCompleted ''eth_sendRawTransaction'' 1052 1058], Inr ''0xhash1'')),
      net_prepareTransactionRequest = (\<lambda>a c req.
        ([CallStarted ''eth_estimateGas'' 1052, CallCompleted ''eth_estimateGas'' 1052 1058],
         Inr req)),
      net_sendRawTransaction = (\<lambda>tx.
        ([CallStarted ''eth_sendRawTransaction'' 1092,
          CallCompleted ''eth_sendRawTransaction'' 1092 1098], Inr ''0xhash2'')),
      net_sendRawTransactionSync = (\<lambda>tx.
        ([CallStarted ''eth_sendRawTransactionSync'' 1092,
          CallCompleted ''eth_sendRawTransactionSync'' 1092 1098],
         Inr \<lparr>transactionHash = ''0xhash3''\<rparr>)),
      net_waitForTransactionReceipt = (\<lambda>h.
        ([CallStarted ''eth_getTransactionReceipt'' 1072,
          CallCompleted ''eth_getTransactionReceipt'' 1072 1078], Inr ())),
      net_getBlock =
        ([CallStarted ''eth_getBlockByNumber'' 1011,
          CallCompleted ''eth_getBlockByNumber'' 1011 1014], Inr \<lparr>baseFeePerGas = Some 7\<rparr>),
      net_maxPriorityFeePerGas =
        ([CallStarted ''eth_maxPriorityFeePerGas'' 1011,
          CallCompleted ''eth_maxPriorityFeePerGas'' 1011 1013], Inr ''0xa''),
      net_estimateGas = (\<lambda>a t v.
        ([CallStarted ''eth_estimateGas'' 1011, CallCompleted ''eth_estimateGas'' 1011 1014],
         Inr 21000)),
      net_getTransactionCount = (\<lambda>a.
        ([CallStarted ''eth_getTransactionCount'' 1015,
          CallCompleted ''eth_getTransactionCount'' 1015 1018], Inr 0))\<rparr>"

definition demo_state :: app_state where
  "demo_state =
     \<lparr>isRunning = False, isPreparing = False, asyncResult = None, syncResult = None,
      asyncPartial = None, syncPartial = None, asyncRPCCalls = [], syncRPCCalls = []\<rparr>"

definition demo_run :: "app_state run" where
  "demo_run = \<lparr>reads = 0, invoked = [], world = demo_state\<rparr>"

definition demo_flow_clock :: "nat \<Rightarrow> int" where
  "demo_flow_clock i = 1020 + 10 * int i"

definition demo_prepared_clock :: "nat \<Rightarrow> int" where
  "demo_prepared_clock i = 1018 + int i"

definition prefetch_no_gas :: PrefetchOptions where
  "prefetch_no_gas =
     \<lparr>PrefetchOptions.nonce = True, gasParams = False, PrefetchOptions.chainId = True\<rparr>"

text \<open>The same network when the latest block has no base fee.\<close>

definition demo_net_no_base_fee :: network where
  "demo_net_no_base_fee =
     demo_net\<lparr>net_getBlock :=
        ([CallStarted ''eth_getBlockByNumber'' 1011,
          CallCompleted ''eth_getBlockByNumber'' 1011 1014], Inr \<lparr>baseFeePerGas = None\<rparr>)\<rparr>"

section \<open>Properties of truncateHash\<close>

lemma slice_prefix: "6 \<le> length s \<Longrightarrow> slice s 0 (Some 6) = take 6 s"
  by (simp add: slice_def Let_def)

lemma slice_suffix: "4 \<le> length s \<Longrightarrow> slice s (- 4) None = drop (length s - 4) s"
  by (simp add: slice_def Let_def nat_diff_distrib')

text \<open>
  C10: truncateHash returns an input shorter than 10 characters (the empty one
  included) as it is; an input of at least 10 characters becomes its first 6
  characters, three dots and its last 4 characters, 13 characters in all.
\<close>

theorem truncateHash_spec:
  "(length hash < 10 \<longrightarrow> truncateHash hash = hash) \<and>
   (10 \<le> length hash \<longrightarrow>
      truncateHash hash = take 6 hash @ ''...'' @ drop (length hash - 4) hash \<and>
      length (truncateHash hash) = 13)"
proof (intro conjI impI)
  assume "length hash < 10"
  then show "truncateHash hash = hash"
    by (simp add: truncateHash_def)
next
  assume long: "10 \<le> length hash"
  then have ne: "hash \<noteq> []" by auto
  from long ne show "truncateHash hash = take 6 hash @ ''...'' @ drop (length hash - 4) hash"
    by (simp add: truncateHash_def slice_prefix slice_suffix)
next
  assume long: "10 \<le> length hash"
  then have ne: "hash \<noteq> []" by auto
  from long ne show "length (truncateHash hash) = 13"
    by (simp add: truncateHash_def slice_prefix slice_suffix)
qed

theorem truncateHash_spec_witness:
  "truncateHash ''0x1234'' = ''0x1234'' \<and>
   truncateHash ''0x1234567890abcdef'' = ''0x1234...cdef'' \<and>
   length (truncateHash ''0x1234567890abcdef'') = 13"
  using truncateHash_spec [of "''0x1234''"] truncateHash_spec [of "''0x1234567890abcdef''"]
  by simp

section \<open>Properties of the comparison\<close>

text \<open>
  C7: the comparison is a function of the two results that names as winner the
  result with the strictly lower duration and reports the absolute difference of the
  durations; being a function of its arguments, it leaves both results as they are.
\<close>

theorem ComparisonCard_winner_margin:
  "timeDifference (ComparisonCard a s) = \<bar>duration a - duration s\<bar> \<and>
   (duration s < duration a \<longrightarrow>
      winner (ComparisonCard a s) = ''Sync (EIP-7966)'' \<and> winning_result a s = s) \<and>
   (duration a < duration s \<longrightarrow>
      winner (ComparisonCard a s) = ''Async'' \<and> winning_result a s = a)"
  by (simp add: ComparisonCard_def winning_result_def)

theorem ComparisonCard_winner_margin_witness:
  "timeDifference (ComparisonCard demo_result_a demo_result_c) = 60 \<and>
   winner (ComparisonCard demo_result_a demo_result_c) = ''Sync (EIP-7966)'' \<and>
   winning_result demo_result_a demo_result_c = demo_result_c \<and>
   winner (ComparisonCard demo_result_c demo_result_a) = ''Async'' \<and>
   winning_result demo_result_c demo_result_a = demo_result_c"
  using ComparisonCard_winner_margin [of demo_result_a demo_result_c]
        ComparisonCard_winner_margin [of demo_result_c demo_result_a]
  by (simp add: demo_result_a_def demo_result_c_def)

text \<open>
  C8 as the claim states it fails for two different results of equal duration: each
  order names the result in the asynchronous slot.
\<close>

theorem comparison_tie_depends_on_order:
  "duration demo_result_a = duration demo_result_b \<and>
   winning_result demo_result_a demo_result_b = demo_result_a \<and>
   winning_result demo_result_b demo_result_a = demo_result_b \<and>
   winning_result demo_result_a demo_result_b \<noteq> winning_result demo_result_b demo_result_a"
  by (simp add: winning_result_def ComparisonCard_def demo_result_a_def demo_result_b_def)

text \<open>
  C8, amended: for every pair of completed results both orders report the same
  margin; when the durations differ both orders name the same result as winner; when
  the durations are equal the winner is the result passed as \<open>asyncResult\<close>, so the
  two orders name the two different arguments.
\<close>

theorem comparison_symmetry:
  "timeDifference (ComparisonCard a b) = timeDifference (ComparisonCard b a) \<and>
   (duration a \<noteq> duration b \<longrightarrow> winning_result a b = winning_result b a) \<and>
   (duration a = duration b \<longrightarrow> winning_result a b = a \<and> winning_result b a = b)"
  by (auto simp add: ComparisonCard_def winning_result_def)

theorem comparison_symmetry_witness:
  "timeDifference (ComparisonCard demo_result_a demo_result_c) =
     timeDifference (ComparisonCard demo_result_c demo_result_a) \<and>
   winning_result demo_result_a demo_result_c = winning_result demo_result_c demo_result_a \<and>
   winning_result demo_result_a demo_result_b = demo_result_a \<and>
   winning_result demo_result_b demo_result_a = demo_result_b"
  using comparison_symmetry [of demo_result_a demo_result_c]
        comparison_symmetry [of demo_result_a demo_result_b]
  by (simp add: demo_result_a_def demo_result_b_def demo_result_c_def)

section \<open>Steps of a flow\<close>

lemma andThen_assoc: "andThen (andThen m f) g = andThen m (\<lambda>a. andThen (f a) g)"
  by (rule ext) (simp add: andThen_def split: prod.splits sum.splits)

lemma andThen_if:
  "andThen (if b then m1 else m2) f = (if b then andThen m1 f else andThen m2 f)"
  by simp

lemma andThen_Date_now:
  "andThen (Date_now clk) f s = f (clk (reads s)) (s\<lparr>reads := Suc (reads s)\<rparr>)"
  by (simp add: andThen_def Date_now_def)

lemma andThen_return: "andThen (return a) f s = f a s"
  by (simp add: andThen_def return_def)

lemma await_eq:
  "await c m s =
     (case m (world s) of
        (Inl e, w) \<Rightarrow> (Inl e, s\<lparr>invoked := invoked s @ [(c, Some e)], world := w\<rparr>)
      | (Inr a, w) \<Rightarrow> (Inr a, s\<lparr>invoked := invoked s @ [(c, None)], world := w\<rparr>))"
  by (simp add: await_def rejection_def split: prod.splits sum.splits)

lemma andThen_await:
  "andThen (await c m) f s =
     (case m (world s) of
        (Inl e, w) \<Rightarrow> (Inl e, s\<lparr>invoked := invoked s @ [(c, Some e)], world := w\<rparr>)
      | (Inr a, w) \<Rightarrow> f a (s\<lparr>invoked := invoked s @ [(c, None)], world := w\<rparr>))"
  by (simp add: andThen_def await_eq split: prod.splits sum.splits)

lemmas step_simps =
  andThen_assoc andThen_if andThen_Date_now andThen_return andThen_await await_eq return_def

lemmas async_defs = runAsyncTransaction_def async_try_def async_submit_def

lemmas async_part000_defs =
  runAsyncTransaction_part000_def async_try_part000_def async_submit_part000_def

lemmas sync_defs = runSyncTransaction_def sync_try_def

lemmas sync_part000_defs = runSyncTransaction_part000_def sync_try_part000_def

section \<open>The calls of the two flows\<close>

lemma async_calls:
  "map fst (invoked (snd (runAsyncTransaction clk pc clients n r opts pg s))) =
   map fst (invoked s) @
   (if all_prefetched opts pg then
      (case signTransaction (walletClient clients)
              (requestToSign clients (build_txParams pc n opts pg)) (world s) of
         (Inl _, _) \<Rightarrow> [SignTransaction (requestToSign clients (build_txParams pc n opts pg))]
       | (Inr serializedTransaction, w1) \<Rightarrow>
           (case sendRawTransaction (publicClient clients) serializedTransaction w1 of
              (Inl _, _) \<Rightarrow>
                [SignTransaction (requestToSign clients (build_txParams pc n opts pg)),
                 SendRawTransaction serializedTransaction]
            | (Inr hash, _) \<Rightarrow>
                [SignTransaction (requestToSign clients (build_txParams pc n opts pg)),
                 SendRawTransaction serializedTransaction, WaitForTransactionReceipt hash]))
    else
      (case sendTransaction (walletClient clients) (build_txParams pc n opts pg) (world s) of
         (Inl _, _) \<Rightarrow> [SendTransaction (build_txParams pc n opts pg)]
       | (Inr hash, _) \<Rightarrow>
           [SendTransaction (build_txParams pc n opts pg), WaitForTransactionReceipt hash]))"
  by (simp add: async_defs step_simps Let_def split: prod.split sum.split)

lemma async_calls_part000:
  "invoked (snd (runAsyncTransaction_part000 clk' pc clients n r opts pg s)) =
   invoked (snd (runAsyncTransaction clk pc clients n r opts pg s))"
  by (simp add: async_defs async_part000_defs step_simps Let_def split: prod.split sum.split)

lemma sync_calls:
  "map fst (invoked (snd (runSyncTransaction clk pc clients n r opts pg s))) =
   map fst (invoked s) @
   (case prepareTransactionRequest (walletClient clients) (build_txParams pc n opts pg)
           (world s) of
      (Inl _, _) \<Rightarrow> [PrepareTransactionRequest (build_txParams pc n opts pg)]
    | (Inr request, w1) \<Rightarrow>
        (case signTransaction (walletClient clients) request w1 of
           (Inl _, _) \<Rightarrow>
             [PrepareTransactionRequest (build_txParams pc n opts pg), SignTransaction request]
         | (Inr serializedTransaction, _) \<Rightarrow>
             [PrepareTransactionRequest (build_txParams pc n opts pg), SignTransaction request,
              SendRawTransactionSync serializedTransaction]))"
  by (simp add: sync_defs step_simps Let_def split: prod.split sum.split)

lemma sync_outcome:
  "(status (fst (runSyncTransaction clk pc clients n r opts pg s)),
    txHash (fst (runSyncTransaction clk pc clients n r opts pg s))) =
   (case prepareTransactionRequest (walletClient clients) (build_txParams pc n opts pg)
           (world s) of
      (Inl _, _) \<Rightarrow> (Failed, [])
    | (Inr request, w1) \<Rightarrow>
        (case signTransaction (walletClient clients) request w1 of
           (Inl _, _) \<Rightarrow> (Failed, [])
         | (Inr serializedTransaction, w2) \<Rightarrow>
             (case sendRawTransactionSync (publicClient clients) serializedTransaction w2 of
                (Inl _, _) \<Rightarrow> (Failed, [])
              | (Inr receipt, _) \<Rightarrow> (Success, transactionHash receipt))))"
  by (simp add: sync_defs error_result_def step_simps Let_def split: prod.split sum.split)

lemma sync_part000:
  "invoked (snd (runSyncTransaction_part000 clk' pc clients n r opts pg s)) =
     invoked (snd (runSyncTransaction clk pc clients n r opts pg s)) \<and>
   status (fst (runSyncTransaction_part000 clk' pc clients n r opts pg s)) =
     status (fst (runSyncTransaction clk pc clients n r opts pg s)) \<and>
   txHash (fst (runSyncTransaction_part000 clk' pc clients n r opts pg s)) =
     txHash (fst (runSyncTransaction clk pc clients n r opts pg s))"
  by (simp add: sync_defs sync_part000_defs error_result_def step_simps Let_def
        split: prod.split sum.split)

text \<open>
  C1: the polling flow takes the fast path exactly when the three prefetch flags are
  set and a gas snapshot is present. Then its calls are: sign the assembled
  parameters with the sender address and the chain identifier attached, send the
  signed transaction raw, wait for the receipt (each call only if the one before it
  settled). In every other configuration they are: the standard send of the assembled
  parameters, then the wait. The second copy of the flow makes the same calls.
\<close>

theorem runAsyncTransaction_fast_path:
  "map fst (invoked (snd (runAsyncTransaction clk pc clients n r opts pg s))) =
   map fst (invoked s) @
   (if PrefetchOptions.nonce opts \<and> gasParams opts \<and> PrefetchOptions.chainId opts \<and>
       pg \<noteq> None
    then
      (let req = (build_txParams pc n opts pg)
                   \<lparr>from := Some (address (account clients)),
                    TransactionParams.chainId := Some abstractTestnet_id\<rparr>
       in case signTransaction (walletClient clients) req (world s) of
            (Inl _, _) \<Rightarrow> [SignTransaction req]
          | (Inr serializedTransaction, w1) \<Rightarrow>
              (case sendRawTransaction (publicClient clients) serializedTransaction w1 of
                 (Inl _, _) \<Rightarrow> [SignTransaction req, SendRawTransaction serializedTransaction]
               | (Inr hash, _) \<Rightarrow>
                   [SignTransaction req, SendRawTransaction serializedTransaction,
                    WaitForTransactionReceipt hash]))
    else
      (let txParams = build_txParams pc n opts pg
       in case sendTransaction (walletClient clients) txParams (world s) of
            (Inl _, _) \<Rightarrow> [SendTransaction txParams]
          | (Inr hash, _) \<Rightarrow> [SendTransaction txParams, WaitForTransactionReceipt hash])) \<and>
   map fst (invoked (snd (runAsyncTransaction_part000 clk' pc clients n r opts pg s))) =
   map fst (invoked (snd (runAsyncTransaction clk pc clients n r opts pg s)))"
proof (intro conjI)
  show "map fst (invoked (snd (runAsyncTransaction_part000 clk' pc clients n r opts pg s))) =
        map fst (invoked (snd (runAsyncTransaction clk pc clients n r opts pg s)))"
    by (simp add: async_calls_part000 [where clk = clk])
qed (simp only: Let_def async_calls [unfolded all_prefetched_def requestToSign_def])

text \<open>
  C2: in every prefetch configuration the synchronous flow first prepares the
  assembled parameters, signs the prepared request and sends the signed transaction
  with the one synchronous call; it makes no other call. The result is a success
  exactly when the three calls settle, and its hash is then the transaction hash of
  the receipt that call returned. The second copy of the flow does the same.
\<close>

theorem runSyncTransaction_always_prepares:
  "map fst (invoked (snd (runSyncTransaction clk pc clients n r opts pg s))) =
   map fst (invoked s) @
   (let txParams = build_txParams pc n opts pg
    in case prepareTransactionRequest (walletClient clients) txParams (world s) of
         (Inl _, _) \<Rightarrow> [PrepareTransactionRequest txParams]
       | (Inr request, w1) \<Rightarrow>
           (case signTransaction (walletClient clients) request w1 of
              (Inl _, _) \<Rightarrow> [PrepareTransactionRequest txParams, SignTransaction request]
            | (Inr serializedTransaction, _) \<Rightarrow>
                [PrepareTransactionRequest txParams, SignTransaction request,
                 SendRawTransactionSync serializedTransaction])) \<and>
   (status (fst (runSyncTransaction clk pc clients n r opts pg s)),
    txHash (fst (runSyncTransaction clk pc clients n r opts pg s))) =
   (let txParams = build_txParams pc n opts pg
    in case prepareTransactionRequest (walletClient clients) txParams (world s) of
         (Inl _, _) \<Rightarrow> (Failed, [])
       | (Inr request, w1) \<Rightarrow>
           (case signTransaction (walletClient clients) request w1 of
              (Inl _, _) \<Rightarrow> (Failed, [])
            | (Inr serializedTransaction, w2) \<Rightarrow>
                (case sendRawTransactionSync (publicClient clients) serializedTransaction w2 of
                   (Inl _, _) \<Rightarrow> (Failed, [])
                 | (Inr receipt, _) \<Rightarrow> (Success, transactionHash receipt)))) \<and>
   invoked (snd (runSyncTransaction_part000 clk' pc clients n r opts pg s)) =
     invoked (snd (runSyncTransaction clk pc clients n r opts pg s)) \<and>
   status (fst (runSyncTransaction_part000 clk' pc clients n r opts pg s)) =
     status (fst (runSyncTransaction clk pc clients n r opts pg s)) \<and>
   txHash (fst (runSyncTransaction_part000 clk' pc clients n r opts pg s)) =
     txHash (fst (runSyncTransaction clk pc clients n r opts pg s))"
proof -
  note copy = sync_part000 [of clk' pc clients n r opts pg s clk]
  show ?thesis
    unfolding Let_def
    by (intro conjI) (simp_all only: sync_calls sync_outcome copy)
qed

section \<open>Failure of a step\<close>

lemma async_settles:
  "settles Async r
     (runAsyncTransaction clk pc clients n r opts pg \<lparr>reads = k, invoked = [], world = w\<rparr>)"
  by (simp add: settles_def async_defs error_result_def step_simps Let_def
        split: prod.split sum.split)

lemma async_settles_part000:
  "settles Async r
     (runAsyncTransaction_part000 clk pc clients n r opts pg
        \<lparr>reads = k, invoked = [], world = w\<rparr>)"
  by (simp add: settles_def async_part000_defs error_result_def step_simps Let_def
        split: prod.split sum.split)

lemma sync_settles:
  "settles Sync r
     (runSyncTransaction clk pc clients n r opts pg \<lparr>reads = k, invoked = [], world = w\<rparr>)"
  by (simp add: settles_def sync_defs error_result_def step_simps Let_def
        split: prod.split sum.split)

lemma sync_settles_part000:
  "settles Sync r
     (runSyncTransaction_part000 clk pc clients n r opts pg
        \<lparr>reads = k, invoked = [], world = w\<rparr>)"
  by (simp add: settles_def sync_part000_defs error_result_def step_simps Let_def
        split: prod.split sum.split)

text \<open>
  C3 as the claim states it fails: the polling flow gets the hash \<open>0xhash1\<close> from
  \<open>sendTransaction\<close>, waiting for the receipt then rejects, and the error result does
  not carry that hash.
\<close>

theorem error_result_drops_hash:
  "invoked (snd (runAsyncTransaction demo_clock demo_paymaster demo_clients 0 ()
                   prefetch_none None demo_start)) =
     [(SendTransaction (build_txParams demo_paymaster 0 prefetch_none None), None),
      (WaitForTransactionReceipt ''0xhash1'', Some (ErrorInstance ''timed out''))] \<and>
   status (fst (runAsyncTransaction demo_clock demo_paymaster demo_clients 0 ()
                  prefetch_none None demo_start)) = Failed \<and>
   txHash (fst (runAsyncTransaction demo_clock demo_paymaster demo_clients 0 ()
                  prefetch_none None demo_start)) \<noteq> ''0xhash1''"
  by (simp add: async_defs error_result_def step_simps Let_def all_prefetched_def
        prefetch_none_def demo_clients_def demo_start_def)

text \<open>
  C3, amended: for every input, when a step of a submission protocol fails the
  protocol stops there and returns the error result: status error, the message of
  the thrown value (\<open>Unknown error\<close> if it is not an \<open>Error\<close>), the call-log array
  it was given and the empty string as transaction hash, whether or not a hash had
  been obtained. Otherwise it returns a success. This holds for both flows, in both
  copies.
\<close>

theorem flows_settle:
  "settles Async r
     (runAsyncTransaction clk pc clients n r opts pg \<lparr>reads = k, invoked = [], world = w\<rparr>) \<and>
   settles Sync r
     (runSyncTransaction clk pc clients n r opts pg \<lparr>reads = k, invoked = [], world = w\<rparr>) \<and>
   settles Async r
     (runAsyncTransaction_part000 clk pc clients n r opts pg
        \<lparr>reads = k, invoked = [], world = w\<rparr>) \<and>
   settles Sync r
     (runSyncTransaction_part000 clk pc clients n r opts pg
        \<lparr>reads = k, invoked = [], world = w\<rparr>)"
  by (intro conjI async_settles sync_settles async_settles_part000 sync_settles_part000)

theorem flows_settle_witness:
  "status (fst (runAsyncTransaction demo_clock demo_paymaster demo_clients 0 ()
                  prefetch_none None demo_start)) = Failed \<and>
   error (fst (runAsyncTransaction demo_clock demo_paymaster demo_clients 0 ()
                 prefetch_none None demo_start)) = Some ''timed out'' \<and>
   txHash (fst (runAsyncTransaction demo_clock demo_paymaster demo_clients 0 ()
                  prefetch_none None demo_start)) = [] \<and>
   status (fst (runSyncTransaction demo_clock demo_paymaster demo_clients 0 ()
                  prefetch_none None demo_start)) = Success \<and>
   error (fst (runSyncTransaction demo_clock demo_paymaster demo_clients 0 ()
                 prefetch_none None demo_start)) = None"
proof -
  have a: "first_rejection (invoked (snd (runAsyncTransaction demo_clock demo_paymaster
             demo_clients 0 () prefetch_none None demo_start))) =
           Some (ErrorInstance ''timed out'')"
    by (simp add: async_defs step_simps Let_def all_prefetched_def prefetch_none_def
          demo_clients_def demo_start_def)
  have b: "first_rejection (invoked (snd (runSyncTransaction demo_clock demo_paymaster
             demo_clients 0 () prefetch_none None demo_start))) = None"
    by (simp add: sync_defs step_simps Let_def demo_clients_def demo_start_def)
  from flows_settle [of "()" demo_clock demo_paymaster demo_clients 0 prefetch_none None
                        0 "()"]
  show ?thesis
    unfolding settles_def demo_start_def [symmetric] a b by simp
qed

section \<open>The set-up of a run\<close>

lemma report_empty: "foldl (\<lambda>w' ev. report emptyLogger None ev w') w evs = w"
proof (induction evs arbitrary: w)
  case Nil
  show ?case by simp
next
  case (Cons ev evs)
  then show ?case by (cases ev) (simp_all add: emptyLogger_def)
qed

lemma transport_empty: "createInstrumentedTransport emptyLogger None rep w = (snd rep, w)"
  by (simp add: createInstrumentedTransport_def report_empty)

lemma await_temp:
  "await c (createInstrumentedTransport emptyLogger None rep) s =
     (snd rep, s\<lparr>invoked := invoked s @ [(c, rejection (snd rep))]\<rparr>)"
  by (simp add: await_def transport_empty)

lemma prefetch_gas_state:
  "snd (prefetch_gas B net a opts s) =
     s\<lparr>invoked := invoked s @
          (if gasParams opts
           then [(GetBlock, rejection (snd (net_getBlock net))),
                 (Request_maxPriorityFeePerGas, rejection (snd (net_maxPriorityFeePerGas net))),
                 (EstimateGas (address a) zeroAddress 0,
                  rejection (snd (net_estimateGas net (address a) zeroAddress 0)))]
           else [])\<rparr>"
  by (simp add: prefetch_gas_def createBenchmarkClients_def await_temp Promise_all_def
        andThen_def throw_def return_def Let_def split: prod.split sum.split)

lemma prefetch_gas_off: "\<not> gasParams opts \<Longrightarrow> fst (prefetch_gas B net a opts s) = Inr None"
  by (simp add: prefetch_gas_def return_def)

lemma prefetch_gas_on:
  assumes "gasParams opts" and "fst (prefetch_gas B net a opts s) = Inr g"
  shows "\<exists>block f fee est.
           snd (net_getBlock net) = Inr block \<and> snd (net_maxPriorityFeePerGas net) = Inr f \<and>
           B f = Inr fee \<and> snd (net_estimateGas net (address a) zeroAddress 0) = Inr est \<and>
           g = Some \<lparr>PrefetchedGas.maxFeePerGas =
                       (case baseFeePerGas block of Some base \<Rightarrow> base + fee | None \<Rightarrow> fee),
                     PrefetchedGas.maxPriorityFeePerGas = fee, PrefetchedGas.gas = est\<rparr>"
  using assms
  by (auto simp add: prefetch_gas_def createBenchmarkClients_def await_temp Promise_all_def
        andThen_def throw_def return_def Let_def split: prod.splits sum.splits option.splits)

lemma fetch_nonces_temp_state:
  "snd (fetch_nonces_temp net a b opts s) =
     s\<lparr>invoked := invoked s @
          (if PrefetchOptions.nonce opts then []
           else [(GetTransactionCount (address a),
                  rejection (snd (net_getTransactionCount net (address a)))),
                 (GetTransactionCount (address b),
                  rejection (snd (net_getTransactionCount net (address b))))])\<rparr>"
  by (simp add: fetch_nonces_temp_def createBenchmarkClients_def await_temp Promise_all_def
        return_def Let_def split: prod.split sum.split)

lemma setup_facts:
  assumes "runBenchmark_setup clk B net a b opts s = (Inr l, s')"
  shows "world s' =
           (world s)\<lparr>isPreparing := False, isRunning := True,
                      asyncResult := None, syncResult := None,
                      asyncRPCCalls := [], syncRPCCalls := [],
                      asyncPartial := Some \<lparr>PartialResult.type = Async,
                         PartialResult.startTime = clk (reads s),
                         PartialResult.rpcCalls = [], isComplete = False\<rparr>,
                      syncPartial := Some \<lparr>PartialResult.type = Sync,
                         PartialResult.startTime = clk (Suc (reads s)),
                         PartialResult.rpcCalls = [], isComplete = False\<rparr>\<rparr>"
    and "\<exists>s0. fst (prefetch_gas B net a opts s0) = Inr (prefetchedGas l)"
    and "\<exists>s0. fst (fetch_nonces_temp net a b opts s0) = Inr (asyncNonce l, syncNonce l)"
    and "asyncClients l = createBenchmarkClients net a asyncCallLogger (Some asyncStartLogger)
                            (PrefetchOptions.chainId opts)"
    and "syncClients l = createBenchmarkClients net b syncCallLogger (Some syncStartLogger)
                           (PrefetchOptions.chainId opts)"
    and "asyncStartTime l = clk (reads s)" and "syncStartTime l = clk (Suc (reads s))"
    and "invoked s' = invoked (snd (fetch_nonces_temp net a b opts
                         (snd (prefetch_gas B net a opts s))))"
  using assms
  by (auto simp add: runBenchmark_setup_def andThen_def setState_def Date_now_def return_def
        case_prod_beta prefetch_gas_state fetch_nonces_temp_state
        split: sum.splits)

text \<open>
  The set-up returns when its queries do: the gas prefetch yields the snapshot when its
  three queries settle and \<open>BigInt\<close> accepts the fee, and the set-up then
  reaches the launch of the flows when the nonce queries settle or are not made.
\<close>

lemma prefetch_gas_settles:
  assumes "gasParams opts"
    and "snd (net_getBlock net) = Inr block"
    and "snd (net_maxPriorityFeePerGas net) = Inr f"
    and "B f = Inr fee"
    and "snd (net_estimateGas net (address a) zeroAddress 0) = Inr est"
  shows "fst (prefetch_gas B net a opts s) =
           Inr (Some \<lparr>PrefetchedGas.maxFeePerGas =
                       (case baseFeePerGas block of Some base \<Rightarrow> base + fee | None \<Rightarrow> fee),
                     PrefetchedGas.maxPriorityFeePerGas = fee, PrefetchedGas.gas = est\<rparr>)"
  using assms
  by (simp add: prefetch_gas_def createBenchmarkClients_def await_temp Promise_all_def
        andThen_def throw_def return_def Let_def split: option.split)

lemma fetch_nonces_temp_settles:
  assumes "PrefetchOptions.nonce opts \<or>
           snd (net_getTransactionCount net (address a)) = Inr na \<and>
           snd (net_getTransactionCount net (address b)) = Inr nb"
  shows "fst (fetch_nonces_temp net a b opts s) =
           Inr (if PrefetchOptions.nonce opts then (0, 0) else (na, nb))"
  using assms
  by (auto simp add: fetch_nonces_temp_def createBenchmarkClients_def await_temp Promise_all_def
        return_def Let_def)

lemma setup_settles:
  assumes "\<And>s0. fst (prefetch_gas B net a opts s0) = Inr g"
    and "PrefetchOptions.nonce opts \<or>
           snd (net_getTransactionCount net (address a)) = Inr na \<and>
           snd (net_getTransactionCount net (address b)) = Inr nb"
  shows "\<exists>l s'. runBenchmark_setup clk B net a b opts s = (Inr l, s') \<and> prefetchedGas l = g"
  by (simp add: runBenchmark_setup_def andThen_def setState_def Date_now_def return_def
        case_prod_beta assms(1) fetch_nonces_temp_settles [OF assms(2)])

section \<open>What a flow leaves alone\<close>

lemma async_reports_keep:
  "beside_async (foldl (\<lambda>w' ev. report asyncCallLogger (Some asyncStartLogger) ev w') w evs) =
   beside_async w"
proof (induction evs arbitrary: w)
  case Nil
  show ?case by simp
next
  case (Cons ev evs)
  then show ?case
    by (cases ev)
       (simp_all add: beside_async_def asyncCallLogger_def asyncStartLogger_def Let_def)
qed

lemma sync_reports_keep:
  "beside_sync (foldl (\<lambda>w' ev. report syncCallLogger (Some syncStartLogger) ev w') w evs) =
   beside_sync w"
proof (induction evs arbitrary: w)
  case Nil
  show ?case by simp
next
  case (Cons ev evs)
  then show ?case
    by (cases ev)
       (simp_all add: beside_sync_def syncCallLogger_def syncStartLogger_def Let_def)
qed

lemma async_transport_keeps:
  "createInstrumentedTransport asyncCallLogger (Some asyncStartLogger) rep w = (x, w1) \<Longrightarrow>
   beside_async w1 = beside_async w"
  by (auto simp add: createInstrumentedTransport_def async_reports_keep)

lemma sync_transport_keeps:
  "createInstrumentedTransport syncCallLogger (Some syncStartLogger) rep w = (x, w1) \<Longrightarrow>
   beside_sync w1 = beside_sync w"
  by (auto simp add: createInstrumentedTransport_def sync_reports_keep)

lemma async_flow_keeps:
  "beside_async (world (snd (runAsyncTransaction clk pc
       (with_account (createBenchmarkClients net a asyncCallLogger (Some asyncStartLogger) c) a')
       n r opts pg s))) =
   beside_async (world s)"
  by (auto simp add: async_defs step_simps createBenchmarkClients_def with_account_def
        Let_def split: prod.split sum.split dest!: async_transport_keeps)

lemma sync_flow_keeps:
  "beside_sync (world (snd (runSyncTransaction clk pc
       (with_account (createBenchmarkClients net a syncCallLogger (Some syncStartLogger) c) a')
       n r opts pg s))) =
   beside_sync (world s)"
  by (auto simp add: sync_defs step_simps createBenchmarkClients_def with_account_def
        Let_def split: prod.split sum.split dest!: sync_transport_keeps)

lemma async_transport_log:
  "asyncRPCCalls (foldl (\<lambda>w' ev. report asyncCallLogger (Some asyncStartLogger) ev w') w evs) =
   log_events evs (asyncRPCCalls w)"
proof (induction evs arbitrary: w)
  case Nil
  show ?case by simp
next
  case (Cons ev evs)
  then show ?case
    by (cases ev) (simp_all add: asyncCallLogger_def asyncStartLogger_def Let_def)
qed

lemma sync_transport_log:
  "syncRPCCalls (foldl (\<lambda>w' ev. report syncCallLogger (Some syncStartLogger) ev w') w evs) =
   log_events evs (syncRPCCalls w)"
proof (induction evs arbitrary: w)
  case Nil
  show ?case by simp
next
  case (Cons ev evs)
  then show ?case
    by (cases ev) (simp_all add: syncCallLogger_def syncStartLogger_def Let_def)
qed

section \<open>Timing and the published results\<close>

lemma async_well_timed:
  "well_timed clk (fst (runAsyncTransaction clk pc clients n r opts pg s))"
  by (simp add: well_timed_def async_defs error_result_def step_simps Let_def monoD
        split: prod.split sum.split)

lemma sync_well_timed:
  "well_timed clk (fst (runSyncTransaction clk pc clients n r opts pg s))"
  by (simp add: well_timed_def sync_defs error_result_def step_simps Let_def monoD
        split: prod.split sum.split)

lemma async_well_timed_part000:
  "well_timed clk (fst (runAsyncTransaction_part000 clk pc clients n r opts pg s))"
  by (simp add: well_timed_def async_part000_defs error_result_def step_simps Let_def monoD
        split: prod.split sum.split)

lemma sync_well_timed_part000:
  "well_timed clk (fst (runSyncTransaction_part000 clk pc clients n r opts pg s))"
  by (simp add: well_timed_def sync_part000_defs error_result_def step_simps Let_def monoD
        split: prod.split sum.split)

lemma flows_async:
  "async_calls (runBenchmark_flows clkA clkS pc a b opts l st) =
     invoked (snd (runAsyncTransaction clkA pc (with_account (asyncClients l) a) (asyncNonce l)
        AsyncRPCCalls opts (prefetchedGas l) \<lparr>reads = 0, invoked = [], world = st\<rparr>))"
  by (simp add: runBenchmark_flows_def case_prod_beta Let_def)

lemma flows_sync_result:
  "syncResult (final (runBenchmark_flows clkA clkS pc a b opts l st)) =
     Some (fst (runSyncTransaction clkS pc (with_account (syncClients l) b) (syncNonce l)
        SyncRPCCalls opts (prefetchedGas l)
        \<lparr>reads = 0, invoked = [],
         world = sync_start (runBenchmark_flows clkA clkS pc a b opts l st)\<rparr>))"
  by (simp add: runBenchmark_flows_def case_prod_beta Let_def)

lemma sync_flow_keeps_asyncResult:
  "asyncResult (world (snd (runSyncTransaction clk pc
       (with_account (createBenchmarkClients net a syncCallLogger (Some syncStartLogger) c) a')
       n r opts pg s))) =
   asyncResult (world s)"
  using sync_flow_keeps [of clk pc net a c a' n r opts pg s]
  by (simp add: beside_sync_def)

lemma async_flow_keeps_syncRPCCalls:
  "syncRPCCalls (world (snd (runAsyncTransaction clk pc
       (with_account (createBenchmarkClients net a asyncCallLogger (Some asyncStartLogger) c) a')
       n r opts pg s))) =
   syncRPCCalls (world s)"
  using async_flow_keeps [of clk pc net a c a' n r opts pg s]
  by (simp add: beside_async_def)

lemma flows_async_result:
  assumes "syncClients l = createBenchmarkClients net b syncCallLogger (Some syncStartLogger) c"
  shows "asyncResult (final (runBenchmark_flows clkA clkS pc a b opts l st)) =
     Some (fst (runAsyncTransaction clkA pc (with_account (asyncClients l) a) (asyncNonce l)
        AsyncRPCCalls opts (prefetchedGas l) \<lparr>reads = 0, invoked = [], world = st\<rparr>))"
  by (simp add: runBenchmark_flows_def case_prod_beta Let_def assms
        sync_flow_keeps_asyncResult)

lemma flows_sync_start:
  assumes "asyncClients l = createBenchmarkClients net a asyncCallLogger (Some asyncStartLogger) c"
  shows "syncRPCCalls (sync_start (runBenchmark_flows clkA clkS pc a b opts l st)) =
         syncRPCCalls st"
  by (simp add: runBenchmark_flows_def case_prod_beta Let_def assms
        async_flow_keeps_syncRPCCalls)

lemma runBenchmark_Inr:
  assumes "runBenchmark clk clkA clkS B pc net a b opts st = Inr run"
  obtains l s' where
    "runBenchmark_setup clk B net a b opts \<lparr>reads = 0, invoked = [], world = st\<rparr> = (Inr l, s')"
    and "run = runBenchmark_flows clkA clkS pc a b opts l (world s')"
  using assms
  by (auto simp add: runBenchmark_def split: prod.splits sum.splits)

lemma published_well_timed:
  assumes "runBenchmark clk clkA clkS B pc net a b opts st = Inr run"
  shows "\<exists>ra rs. asyncResult (final run) = Some ra \<and> syncResult (final run) = Some rs \<and>
           well_timed clkA ra \<and> well_timed clkS rs"
proof -
  from assms obtain l s' where
    prep: "runBenchmark_setup clk B net a b opts \<lparr>reads = 0, invoked = [], world = st\<rparr> =
              (Inr l, s')"
    and run: "run = runBenchmark_flows clkA clkS pc a b opts l (world s')"
    by (rule runBenchmark_Inr)
  have ra: "asyncResult (final run) =
     Some (fst (runAsyncTransaction clkA pc (with_account (asyncClients l) a) (asyncNonce l)
        AsyncRPCCalls opts (prefetchedGas l) \<lparr>reads = 0, invoked = [], world = world s'\<rparr>))"
    unfolding run by (rule flows_async_result [OF setup_facts(5) [OF prep]])
  have rs: "syncResult (final run) =
     Some (fst (runSyncTransaction clkS pc (with_account (syncClients l) b) (syncNonce l)
        SyncRPCCalls opts (prefetchedGas l)
        \<lparr>reads = 0, invoked = [], world = sync_start run\<rparr>))"
    unfolding run by (rule flows_sync_result)
  show ?thesis
    unfolding ra rs by (simp add: async_well_timed sync_well_timed)
qed

section \<open>The set-up without the Preparing state\<close>

lemma await_transport:
  "await c (createInstrumentedTransport L SL rep) s =
     (snd rep, s\<lparr>invoked := invoked s @ [(c, rejection (snd rep))],
                 world := foldl (\<lambda>w' ev. report L SL ev w') (world s) (fst rep)\<rparr>)"
  by (simp add: await_def createInstrumentedTransport_def)

lemma fetch_nonces_own_state:
  "snd (fetch_nonces_own net a b opts
          (createBenchmarkClients net a asyncCallLogger (Some asyncStartLogger) c)
          (createBenchmarkClients net b syncCallLogger (Some syncStartLogger) c) s) =
     (if PrefetchOptions.nonce opts then s
      else s\<lparr>invoked := invoked s @
                 [(GetTransactionCount (address a),
                   rejection (snd (net_getTransactionCount net (address a)))),
                  (GetTransactionCount (address b),
                   rejection (snd (net_getTransactionCount net (address b))))],
              world :=
                foldl (\<lambda>w' ev. report syncCallLogger (Some syncStartLogger) ev w')
                  (foldl (\<lambda>w' ev. report asyncCallLogger (Some asyncStartLogger) ev w')
                     (world s) (fst (net_getTransactionCount net (address a))))
                  (fst (net_getTransactionCount net (address b)))\<rparr>)"
  by (simp add: fetch_nonces_own_def createBenchmarkClients_def await_transport
        Promise_all_def return_def)

lemma nonce_events_arrays:
  "asyncRPCCalls
     (foldl (\<lambda>w' ev. report syncCallLogger (Some syncStartLogger) ev w')
        (foldl (\<lambda>w' ev. report asyncCallLogger (Some asyncStartLogger) ev w') w evsA) evsB) =
     log_events evsA (asyncRPCCalls w)"
  "syncRPCCalls
     (foldl (\<lambda>w' ev. report syncCallLogger (Some syncStartLogger) ev w')
        (foldl (\<lambda>w' ev. report asyncCallLogger (Some asyncStartLogger) ev w') w evsA) evsB) =
     log_events evsB (syncRPCCalls w)"
proof -
  have "beside_sync
     (foldl (\<lambda>w' ev. report syncCallLogger (Some syncStartLogger) ev w')
        (foldl (\<lambda>w' ev. report asyncCallLogger (Some asyncStartLogger) ev w') w evsA) evsB) =
     beside_sync (foldl (\<lambda>w' ev. report asyncCallLogger (Some asyncStartLogger) ev w') w evsA)"
    by (rule sync_reports_keep)
  then show "asyncRPCCalls
     (foldl (\<lambda>w' ev. report syncCallLogger (Some syncStartLogger) ev w')
        (foldl (\<lambda>w' ev. report asyncCallLogger (Some asyncStartLogger) ev w') w evsA) evsB) =
     log_events evsA (asyncRPCCalls w)"
    by (simp add: beside_sync_def async_transport_log)
  have "beside_async (foldl (\<lambda>w' ev. report asyncCallLogger (Some asyncStartLogger) ev w') w evsA)
        = beside_async w"
    by (rule async_reports_keep)
  then show "syncRPCCalls
     (foldl (\<lambda>w' ev. report syncCallLogger (Some syncStartLogger) ev w')
        (foldl (\<lambda>w' ev. report asyncCallLogger (Some asyncStartLogger) ev w') w evsA) evsB) =
     log_events evsB (syncRPCCalls w)"
    by (simp add: beside_async_def sync_transport_log)
qed

lemma setup_part002_facts:
  assumes "runBenchmark_setup_part002 clk B net a b opts s = (Inr l, s')"
  shows "asyncRPCCalls (world s') =
           (if PrefetchOptions.nonce opts then []
            else log_events (fst (net_getTransactionCount net (address a))) [])"
    and "syncRPCCalls (world s') =
           (if PrefetchOptions.nonce opts then []
            else log_events (fst (net_getTransactionCount net (address b))) [])"
    and "\<exists>s0. fst (prefetch_gas B net a opts s0) = Inr (prefetchedGas l)"
    and "asyncClients l = createBenchmarkClients net a asyncCallLogger (Some asyncStartLogger)
                            (PrefetchOptions.chainId opts)"
    and "syncClients l = createBenchmarkClients net b syncCallLogger (Some syncStartLogger)
                           (PrefetchOptions.chainId opts)"
    and "asyncStartTime l = clk (reads s)" and "syncStartTime l = clk (Suc (reads s))"
    and "map fst (invoked s') = map fst (invoked s) @
           (if gasParams opts
            then [GetBlock, Request_maxPriorityFeePerGas, EstimateGas (address a) zeroAddress 0]
            else []) @
           (if PrefetchOptions.nonce opts then []
            else [GetTransactionCount (address a), GetTransactionCount (address b)])"
  using assms
  by (auto simp add: runBenchmark_setup_part002_def andThen_def setState_def Date_now_def
        return_def case_prod_beta Let_def prefetch_gas_state fetch_nonces_own_state
        nonce_events_arrays
        split: sum.splits)

lemma setup_calls:
  assumes "runBenchmark_setup clk B net a b opts s = (Inr l, s')"
  shows "map fst (invoked s') = map fst (invoked s) @
           (if gasParams opts
            then [GetBlock, Request_maxPriorityFeePerGas, EstimateGas (address a) zeroAddress 0]
            else []) @
           (if PrefetchOptions.nonce opts then []
            else [GetTransactionCount (address a), GetTransactionCount (address b)])"
  by (simp add: setup_facts(8) [OF assms] prefetch_gas_state fetch_nonces_temp_state)

lemma fetch_nonces_own_settles:
  assumes "PrefetchOptions.nonce opts \<or>
           snd (net_getTransactionCount net (address a)) = Inr na \<and>
           snd (net_getTransactionCount net (address b)) = Inr nb"
  shows "fst (fetch_nonces_own net a b opts
          (createBenchmarkClients net a L SL c) (createBenchmarkClients net b L' SL' c') s) =
           Inr (if PrefetchOptions.nonce opts then (0, 0) else (na, nb))"
  using assms
  by (auto simp add: fetch_nonces_own_def createBenchmarkClients_def await_transport Promise_all_def
        return_def Let_def)

lemma setup_part002_settles:
  assumes "\<And>s0. fst (prefetch_gas B net a opts s0) = Inr g"
    and "PrefetchOptions.nonce opts \<or>
           snd (net_getTransactionCount net (address a)) = Inr na \<and>
           snd (net_getTransactionCount net (address b)) = Inr nb"
  shows "\<exists>l s'. runBenchmark_setup_part002 clk B net a b opts s = (Inr l, s') \<and>
           prefetchedGas l = g"
  by (simp add: runBenchmark_setup_part002_def andThen_def setState_def Date_now_def return_def
        case_prod_beta Let_def assms(1) fetch_nonces_own_settles [OF assms(2)])

lemma flows_part002_async_result:
  assumes "syncClients l = createBenchmarkClients net b syncCallLogger (Some syncStartLogger) c"
  shows "asyncResult (final (runBenchmark_flows_part002 clkA clkS tA tS pc a b opts l st)) =
     Some ((fst (runAsyncTransaction clkA pc (with_account (asyncClients l) a) (asyncNonce l)
        AsyncRPCCalls opts (prefetchedGas l) \<lparr>reads = 0, invoked = [], world = st\<rparr>))
          \<lparr>duration := tA - asyncStartTime l\<rparr>)"
  by (simp add: runBenchmark_flows_part002_def case_prod_beta Let_def assms
        sync_flow_keeps_asyncResult)

lemma flows_part002_sync_result:
  "syncResult (final (runBenchmark_flows_part002 clkA clkS tA tS pc a b opts l st)) =
     Some ((fst (runSyncTransaction clkS pc (with_account (syncClients l) b) (syncNonce l)
        SyncRPCCalls opts (prefetchedGas l)
        \<lparr>reads = 0, invoked = [],
         world = sync_start (runBenchmark_flows_part002 clkA clkS tA tS pc a b opts l st)\<rparr>))
          \<lparr>duration := tS - syncStartTime l\<rparr>)"
  by (simp add: runBenchmark_flows_part002_def case_prod_beta Let_def)

lemma flows_part002_async:
  "async_calls (runBenchmark_flows_part002 clkA clkS tA tS pc a b opts l st) =
     invoked (snd (runAsyncTransaction clkA pc (with_account (asyncClients l) a) (asyncNonce l)
        AsyncRPCCalls opts (prefetchedGas l) \<lparr>reads = 0, invoked = [], world = st\<rparr>))"
  by (simp add: runBenchmark_flows_part002_def case_prod_beta Let_def)

lemma runBenchmark_part002_Inr:
  assumes "runBenchmark_part002 clk clkA clkS tA tS B pc net a b opts st = Inr run"
  obtains l s' where
    "runBenchmark_setup_part002 clk B net a b opts \<lparr>reads = 0, invoked = [], world = st\<rparr> =
       (Inr l, s')"
    and "run = runBenchmark_flows_part002 clkA clkS tA tS pc a b opts l (world s')"
  using assms
  by (auto simp add: runBenchmark_part002_def split: prod.splits sum.splits)

lemma published_part002:
  assumes "runBenchmark_part002 clk clkA clkS tA tS B pc net a b opts st = Inr run"
  shows "\<exists>resA resS. well_timed clkA resA \<and> well_timed clkS resS \<and>
           asyncResult (final run) = Some (resA\<lparr>duration := tA - clk 0\<rparr>) \<and>
           syncResult (final run) = Some (resS\<lparr>duration := tS - clk 1\<rparr>)"
proof -
  from assms obtain l s' where
    prep: "runBenchmark_setup_part002 clk B net a b opts
             \<lparr>reads = 0, invoked = [], world = st\<rparr> = (Inr l, s')"
    and run: "run = runBenchmark_flows_part002 clkA clkS tA tS pc a b opts l (world s')"
    by (rule runBenchmark_part002_Inr)
  have t: "asyncStartTime l = clk 0" "syncStartTime l = clk 1"
    using setup_part002_facts(6,7) [OF prep] by simp_all
  have ra: "asyncResult (final run) =
     Some ((fst (runAsyncTransaction clkA pc (with_account (asyncClients l) a) (asyncNonce l)
        AsyncRPCCalls opts (prefetchedGas l) \<lparr>reads = 0, invoked = [], world = world s'\<rparr>))
          \<lparr>duration := tA - clk 0\<rparr>)"
    unfolding run t [symmetric]
    by (rule flows_part002_async_result [OF setup_part002_facts(5) [OF prep]])
  have rs: "syncResult (final run) =
     Some ((fst (runSyncTransaction clkS pc (with_account (syncClients l) b) (syncNonce l)
        SyncRPCCalls opts (prefetchedGas l)
        \<lparr>reads = 0, invoked = [], world = sync_start run\<rparr>))
          \<lparr>duration := tS - clk 1\<rparr>)"
    unfolding run t [symmetric] by (rule flows_part002_sync_result)
  show ?thesis
    unfolding ra rs
    by (intro exI [of _ "fst (runAsyncTransaction clkA pc (with_account (asyncClients l) a)
          (asyncNonce l) AsyncRPCCalls opts (prefetchedGas l)
          \<lparr>reads = 0, invoked = [], world = world s'\<rparr>)"]
        exI [of _ "fst (runSyncTransaction clkS pc (with_account (syncClients l) b)
          (syncNonce l) SyncRPCCalls opts (prefetchedGas l)
          \<lparr>reads = 0, invoked = [], world = sync_start run\<rparr>)"]
        conjI refl async_well_timed sync_well_timed)
qed

section \<open>The demo network\<close>

lemma demo_prefetch:
  "fst (prefetch_gas demo_BigInt demo_net a opts s) =
     Inr (if gasParams opts
          then Some \<lparr>PrefetchedGas.maxFeePerGas = 17, PrefetchedGas.maxPriorityFeePerGas = 10,
                     PrefetchedGas.gas = 21000\<rparr>
          else None)"
  by (simp add: prefetch_gas_def createBenchmarkClients_def await_temp Promise_all_def
        andThen_def throw_def return_def Let_def demo_net_def demo_BigInt_def)

lemma demo_nonces_temp: "fst (fetch_nonces_temp demo_net a b opts s) = Inr (0, 0)"
  by (simp add: fetch_nonces_temp_def createBenchmarkClients_def await_temp Promise_all_def
        return_def Let_def demo_net_def)

lemma demo_nonces_own:
  "fst (fetch_nonces_own demo_net a b opts
          (createBenchmarkClients demo_net a L SL c) (createBenchmarkClients demo_net b L' SL' c')
          s) = Inr (0, 0)"
  by (simp add: fetch_nonces_own_def createBenchmarkClients_def await_transport Promise_all_def
        return_def Let_def demo_net_def)

lemma demo_setup:
  "\<exists>l s'. runBenchmark_setup clk demo_BigInt demo_net a b opts s = (Inr l, s')"
  by (simp add: runBenchmark_setup_def andThen_def setState_def Date_now_def return_def
        case_prod_beta demo_prefetch demo_nonces_temp)

lemma demo_setup_part002:
  "\<exists>l s'. runBenchmark_setup_part002 clk demo_BigInt demo_net a b opts s = (Inr l, s')"
  by (simp add: runBenchmark_setup_part002_def andThen_def setState_def Date_now_def return_def
        case_prod_beta Let_def demo_prefetch demo_nonces_own)

lemma demo_runBenchmark:
  "\<exists>run. runBenchmark clk clkA clkS demo_BigInt pc demo_net a b opts st = Inr run"
proof -
  obtain l s' where "runBenchmark_setup clk demo_BigInt demo_net a b opts
      \<lparr>reads = 0, invoked = [], world = st\<rparr> = (Inr l, s')"
    using demo_setup by blast
  then show ?thesis by (simp add: runBenchmark_def)
qed

lemma demo_runBenchmark_part002:
  "\<exists>run. runBenchmark_part002 clk clkA clkS tA tS demo_BigInt pc demo_net a b opts st = Inr run"
proof -
  obtain l s' where "runBenchmark_setup_part002 clk demo_BigInt demo_net a b opts
      \<lparr>reads = 0, invoked = [], world = st\<rparr> = (Inr l, s')"
    using demo_setup_part002 by blast
  then show ?thesis by (simp add: runBenchmark_part002_def)
qed

text \<open>The polling flow on the demo network, without the fast path: both calls settle.\<close>

lemma demo_async_times:
  "\<not> all_prefetched opts pg \<Longrightarrow>
   startTime (fst (runAsyncTransaction clk pc
       (with_account (createBenchmarkClients demo_net a L SL c) a') n r opts pg s)) =
     clk (reads s) \<and>
   endTime (fst (runAsyncTransaction clk pc
       (with_account (createBenchmarkClients demo_net a L SL c) a') n r opts pg s)) =
     clk (Suc (Suc (Suc (Suc (Suc (Suc (Suc (reads s))))))))"
  by (simp add: async_defs step_simps createBenchmarkClients_def with_account_def
        createInstrumentedTransport_def demo_net_def Let_def)

lemma demo_setup_part002_none:
  "\<not> isl (fst (runBenchmark_setup_part002 demo_clock demo_BigInt demo_net demo_async_account
                  demo_sync_account prefetch_none demo_run))"
  by (simp add: runBenchmark_setup_part002_def andThen_def setState_def Date_now_def
        return_def case_prod_beta Let_def prefetch_gas_state 
        prefetch_gas_off fetch_nonces_own_def Promise_all_def createBenchmarkClients_def await_transport
        prefetch_none_def demo_net_def
        split: sum.split)

lemma demo_log:
  "log_events (fst (net_getTransactionCount demo_net x)) [] =
     [\<lparr>method = ''eth_getTransactionCount'', RPCCallLog.startTime = 1015,
       RPCCallLog.endTime = 1018, RPCCallLog.duration = 3, isPending = False\<rparr>]"
  by (simp add: demo_net_def started_def completed_def findIndex_def)


section \<open>Timing of the results, and what the set-up logs\<close>

text \<open>
  C4 as the claim states it fails for the final result published by the orchestrator
  without the Preparing state: the polling flow returns a result with start 1020, end
  1090 and duration 70, and the result published has duration 100.
\<close>

theorem published_duration_differs:
  "\<not> isl (runBenchmark_part002 demo_clock demo_flow_clock demo_flow_clock 1100 1120
            demo_BigInt demo_paymaster demo_net demo_async_account demo_sync_account
            prefetch_none demo_state) \<and>
   map_option duration (asyncResult (final (projr
       (runBenchmark_part002 demo_clock demo_flow_clock demo_flow_clock 1100 1120
          demo_BigInt demo_paymaster demo_net demo_async_account demo_sync_account
          prefetch_none demo_state)))) = Some 100 \<and>
   map_option startTime (asyncResult (final (projr
       (runBenchmark_part002 demo_clock demo_flow_clock demo_flow_clock 1100 1120
          demo_BigInt demo_paymaster demo_net demo_async_account demo_sync_account
          prefetch_none demo_state)))) = Some 1020 \<and>
   map_option endTime (asyncResult (final (projr
       (runBenchmark_part002 demo_clock demo_flow_clock demo_flow_clock 1100 1120
          demo_BigInt demo_paymaster demo_net demo_async_account demo_sync_account
          prefetch_none demo_state)))) = Some 1090"
proof -
  obtain run where e: "runBenchmark_part002 demo_clock demo_flow_clock demo_flow_clock 1100
      1120 demo_BigInt demo_paymaster demo_net demo_async_account demo_sync_account
      prefetch_none demo_state = Inr run"
    using demo_runBenchmark_part002 by blast
  then obtain l s' where
    prep: "runBenchmark_setup_part002 demo_clock demo_BigInt demo_net demo_async_account
             demo_sync_account prefetch_none \<lparr>reads = 0, invoked = [], world = demo_state\<rparr> =
             (Inr l, s')"
    and run: "run = runBenchmark_flows_part002 demo_flow_clock demo_flow_clock 1100 1120
                demo_paymaster demo_async_account demo_sync_account prefetch_none l (world s')"
    by (rule runBenchmark_part002_Inr)
  note f = setup_part002_facts [OF prep]
  have np: "\<not> all_prefetched prefetch_none (prefetchedGas l)"
    by (simp add: all_prefetched_def prefetch_none_def)
  have "asyncResult (final run) =
     Some ((fst (runAsyncTransaction demo_flow_clock demo_paymaster
        (with_account (asyncClients l) demo_async_account) (asyncNonce l)
        AsyncRPCCalls prefetch_none (prefetchedGas l)
        \<lparr>reads = 0, invoked = [], world = world s'\<rparr>))
          \<lparr>duration := 1100 - asyncStartTime l\<rparr>)"
    unfolding run by (rule flows_part002_async_result [OF f(5)])
  then show ?thesis
    using demo_async_times [OF np, of demo_flow_clock demo_paymaster demo_async_account
        asyncCallLogger "Some asyncStartLogger" "PrefetchOptions.chainId prefetch_none"
        demo_async_account "asyncNonce l" AsyncRPCCalls
        "\<lparr>reads = 0, invoked = [], world = world s'\<rparr>"]
    by (simp add: e f(4) f(6) demo_clock_def demo_flow_clock_def)
qed

text \<open>
  C4, amended: every result returned by either flow, in the success and in the error
  branch and in both copies of the flows, has duration = endTime - startTime, and a
  duration that is not negative when the clock the flow reads is non-decreasing. The
  orchestrator with the Preparing state publishes the two results as the flows return
  them, so its final results have the same two properties. The orchestrator without
  the Preparing state publishes each result with the duration replaced by the clock at
  settlement minus its own start time, read before the set-up.
\<close>

theorem results_well_timed:
  "well_timed clk (fst (runAsyncTransaction clk pc clients n r opts pg s)) \<and>
   well_timed clk (fst (runSyncTransaction clk pc clients n r opts pg s)) \<and>
   well_timed clk (fst (runAsyncTransaction_part000 clk pc clients n r opts pg s)) \<and>
   well_timed clk (fst (runSyncTransaction_part000 clk pc clients n r opts pg s)) \<and>
   (runBenchmark clk clkA clkS B pc net a b opts st = Inr run \<longrightarrow>
      (\<exists>ra rs. asyncResult (final run) = Some ra \<and> syncResult (final run) = Some rs \<and>
                well_timed clkA ra \<and> well_timed clkS rs)) \<and>
   (runBenchmark_part002 clk clkA clkS tA tS B pc net a b opts st = Inr run2 \<longrightarrow>
      (\<exists>resA resS. well_timed clkA resA \<and> well_timed clkS resS \<and>
                    asyncResult (final run2) = Some (resA\<lparr>duration := tA - clk 0\<rparr>) \<and>
                    syncResult (final run2) = Some (resS\<lparr>duration := tS - clk 1\<rparr>)))"
  by (intro conjI impI async_well_timed sync_well_timed async_well_timed_part000
        sync_well_timed_part000 published_well_timed published_part002)

theorem results_well_timed_witness:
  "0 \<le> duration (fst (runAsyncTransaction demo_clock demo_paymaster demo_clients 0 ()
                         prefetch_none None demo_start)) \<and>
   (\<exists>ra rs. asyncResult (final (projr (runBenchmark demo_prepared_clock demo_flow_clock demo_flow_clock
                 demo_BigInt demo_paymaster demo_net demo_async_account demo_sync_account
                 prefetch_none demo_state))) = Some ra \<and>
             syncResult (final (projr (runBenchmark demo_prepared_clock demo_flow_clock demo_flow_clock
                 demo_BigInt demo_paymaster demo_net demo_async_account demo_sync_account
                 prefetch_none demo_state))) = Some rs \<and>
             duration ra = endTime ra - startTime ra \<and> 0 \<le> duration ra \<and>
             duration rs = endTime rs - startTime rs \<and> 0 \<le> duration rs) \<and>
   (\<exists>ra. asyncResult (final (projr (runBenchmark_part002 demo_clock demo_flow_clock
                 demo_flow_clock 1100 1120 demo_BigInt demo_paymaster demo_net
                 demo_async_account demo_sync_account prefetch_none demo_state))) = Some ra \<and>
          duration ra = 100)"
proof -
  have m: "mono demo_clock" "mono demo_flow_clock"
    by (simp_all add: mono_def demo_clock_def demo_flow_clock_def)
  obtain run where e: "runBenchmark demo_prepared_clock demo_flow_clock demo_flow_clock
      demo_BigInt demo_paymaster demo_net demo_async_account demo_sync_account
      prefetch_none demo_state = Inr run"
    using demo_runBenchmark by blast
  obtain run2 where e2: "runBenchmark_part002 demo_clock demo_flow_clock demo_flow_clock 1100
      1120 demo_BigInt demo_paymaster demo_net demo_async_account demo_sync_account
      prefetch_none demo_state = Inr run2"
    using demo_runBenchmark_part002 by blast
  note flows = results_well_timed [where clk = demo_clock and pc = demo_paymaster
      and clients = demo_clients and n = 0 and r = "()" and opts = prefetch_none and pg = None
      and s = demo_start, THEN conjunct1]
  note prepared = results_well_timed [where clk = demo_prepared_clock
      and pc = demo_paymaster and opts = prefetch_none and clkA = demo_flow_clock
      and clkS = demo_flow_clock and B = demo_BigInt and net = demo_net
      and a = demo_async_account and b = demo_sync_account and st = demo_state and run = run,
      THEN conjunct2, THEN conjunct2, THEN conjunct2, THEN conjunct2, THEN conjunct1,
      THEN mp, OF e]
  note unprepared = results_well_timed [where clk = demo_clock and pc = demo_paymaster
      and opts = prefetch_none and clkA = demo_flow_clock and clkS = demo_flow_clock
      and B = demo_BigInt and net = demo_net and a = demo_async_account
      and b = demo_sync_account and st = demo_state and tA = 1100 and tS = 1120
      and ?run2.0 = run2,
      THEN conjunct2, THEN conjunct2, THEN conjunct2, THEN conjunct2, THEN conjunct2,
      THEN mp, OF e2]
  have "0 \<le> duration (fst (runAsyncTransaction demo_clock demo_paymaster demo_clients 0 ()
                              prefetch_none None demo_start))"
    using flows m by (simp add: well_timed_def)
  moreover have "\<exists>ra rs. asyncResult (final run) = Some ra \<and> syncResult (final run) = Some rs \<and>
             duration ra = endTime ra - startTime ra \<and> 0 \<le> duration ra \<and>
             duration rs = endTime rs - startTime rs \<and> 0 \<le> duration rs"
    using prepared m by (auto simp add: well_timed_def)
  moreover have "\<exists>ra. asyncResult (final run2) = Some ra \<and> duration ra = 100"
    using unprepared by (auto simp add: demo_clock_def)
  ultimately show ?thesis
    by (simp add: e e2)
qed

text \<open>
  C5: set-up queries are not to be logged into a flow's own array, so that both arrays
  are empty when the flows are invoked. The orchestrator without the Preparing state
  (src/unnamed/part\_002) breaks this: it fetches the starting nonces through the flows'
  own clients. With every prefetch flag off its set-up succeeds on the demo network,
  and when the flows are invoked the polling flow's array holds the completed entry of
  the nonce query.
\<close>

theorem nonce_queries_logged:
  "\<not> isl (fst (runBenchmark_setup_part002 demo_clock demo_BigInt demo_net demo_async_account
                  demo_sync_account prefetch_none demo_run)) \<and>
   asyncRPCCalls (world (snd (runBenchmark_setup_part002 demo_clock demo_BigInt demo_net
       demo_async_account demo_sync_account prefetch_none demo_run))) =
     [\<lparr>method = ''eth_getTransactionCount'', RPCCallLog.startTime = 1015,
       RPCCallLog.endTime = 1018, RPCCallLog.duration = 3, isPending = False\<rparr>]"
proof -
  obtain l s' where e: "runBenchmark_setup_part002 demo_clock demo_BigInt demo_net
       demo_async_account demo_sync_account prefetch_none demo_run = (Inr l, s')"
    using demo_setup_part002_none
    by (metis isl_def prod.collapse sum.collapse(2))
  have "asyncRPCCalls (world s') =
     [\<lparr>method = ''eth_getTransactionCount'', RPCCallLog.startTime = 1015,
       RPCCallLog.endTime = 1018, RPCCallLog.duration = 3, isPending = False\<rparr>]"
    using setup_part002_facts(1) [OF e] by (simp add: demo_log prefetch_none_def)
  then show ?thesis by (simp add: e)
qed

text \<open>
  What the set-up logs in each version of the orchestrator. With the Preparing state
  no set-up query is logged into a flow's array: the nonce queries (made when nonce
  prefetch is disabled) and the gas-prefetch queries (made when gas prefetch is
  enabled) go through clients with the empty logger, and both arrays are empty when
  the flows are invoked (the synchronous flow's array also in the state in which the
  model starts that flow). Without the Preparing state the gas prefetch is unlogged as
  well, but the nonce queries go through the flows' own clients: when the flows are
  invoked each array holds what the transport reported for its identity's nonce query,
  and is empty only if nonce prefetch is enabled.
\<close>

theorem setup_queries_not_logged:
  "(runBenchmark_setup clk B net a b opts s = (Inr l, s') \<longrightarrow>
      asyncRPCCalls (world s') = [] \<and> syncRPCCalls (world s') = [] \<and>
      map fst (invoked s') = map fst (invoked s) @
        (if gasParams opts
         then [GetBlock, Request_maxPriorityFeePerGas, EstimateGas (address a) zeroAddress 0]
         else []) @
        (if PrefetchOptions.nonce opts then []
         else [GetTransactionCount (address a), GetTransactionCount (address b)])) \<and>
   (runBenchmark clk clkA clkS B pc net a b opts st = Inr run \<longrightarrow>
      syncRPCCalls (sync_start run) = []) \<and>
   (runBenchmark_setup_part002 clk B net a b opts s = (Inr l2, s2) \<longrightarrow>
      asyncRPCCalls (world s2) =
        (if PrefetchOptions.nonce opts then []
         else log_events (fst (net_getTransactionCount net (address a))) []) \<and>
      syncRPCCalls (world s2) =
        (if PrefetchOptions.nonce opts then []
         else log_events (fst (net_getTransactionCount net (address b))) []) \<and>
      map fst (invoked s2) = map fst (invoked s) @
        (if gasParams opts
         then [GetBlock, Request_maxPriorityFeePerGas, EstimateGas (address a) zeroAddress 0]
         else []) @
        (if PrefetchOptions.nonce opts then []
         else [GetTransactionCount (address a), GetTransactionCount (address b)]))"
proof (intro conjI impI)
  assume e: "runBenchmark_setup clk B net a b opts s = (Inr l, s')"
  show "asyncRPCCalls (world s') = []" "syncRPCCalls (world s') = []"
    by (simp_all add: setup_facts(1) [OF e])
  show "map fst (invoked s') = map fst (invoked s) @
        (if gasParams opts
         then [GetBlock, Request_maxPriorityFeePerGas, EstimateGas (address a) zeroAddress 0]
         else []) @
        (if PrefetchOptions.nonce opts then []
         else [GetTransactionCount (address a), GetTransactionCount (address b)])"
    by (rule setup_calls [OF e])
next
  assume "runBenchmark clk clkA clkS B pc net a b opts st = Inr run"
  then obtain l0 s0 where
    prep: "runBenchmark_setup clk B net a b opts \<lparr>reads = 0, invoked = [], world = st\<rparr> =
             (Inr l0, s0)"
    and run: "run = runBenchmark_flows clkA clkS pc a b opts l0 (world s0)"
    by (rule runBenchmark_Inr)
  show "syncRPCCalls (sync_start run) = []"
    unfolding run
    by (simp add: flows_sync_start [OF setup_facts(4) [OF prep]] setup_facts(1) [OF prep])
next
  assume e: "runBenchmark_setup_part002 clk B net a b opts s = (Inr l2, s2)"
  note f = setup_part002_facts [OF e]
  show "asyncRPCCalls (world s2) =
        (if PrefetchOptions.nonce opts then []
         else log_events (fst (net_getTransactionCount net (address a))) [])"
    by (rule f(1))
  show "syncRPCCalls (world s2) =
        (if PrefetchOptions.nonce opts then []
         else log_events (fst (net_getTransactionCount net (address b))) [])"
    by (rule f(2))
  show "map fst (invoked s2) = map fst (invoked s) @
        (if gasParams opts
         then [GetBlock, Request_maxPriorityFeePerGas, EstimateGas (address a) zeroAddress 0]
         else []) @
        (if PrefetchOptions.nonce opts then []
         else [GetTransactionCount (address a), GetTransactionCount (address b)])"
    by (rule f(8))
qed

theorem setup_queries_not_logged_witness:
  "asyncRPCCalls (world (snd (runBenchmark_setup demo_prepared_clock demo_BigInt demo_net
       demo_async_account demo_sync_account prefetch_none demo_run))) = [] \<and>
   syncRPCCalls (world (snd (runBenchmark_setup demo_prepared_clock demo_BigInt demo_net
       demo_async_account demo_sync_account prefetch_none demo_run))) = [] \<and>
   map fst (invoked (snd (runBenchmark_setup demo_prepared_clock demo_BigInt demo_net
       demo_async_account demo_sync_account prefetch_none demo_run))) =
     [GetTransactionCount ''0xa11'', GetTransactionCount ''0xb22''] \<and>
   syncRPCCalls (sync_start (projr (runBenchmark demo_prepared_clock demo_flow_clock demo_flow_clock
       demo_BigInt demo_paymaster demo_net demo_async_account demo_sync_account
       prefetch_none demo_state))) = [] \<and>
   syncRPCCalls (world (snd (runBenchmark_setup_part002 demo_clock demo_BigInt demo_net
       demo_async_account demo_sync_account prefetch_all demo_run))) = []"
proof -
  obtain l s' where e: "runBenchmark_setup demo_prepared_clock demo_BigInt demo_net
       demo_async_account demo_sync_account prefetch_none demo_run = (Inr l, s')"
    using demo_setup by blast
  obtain run where r: "runBenchmark demo_prepared_clock demo_flow_clock demo_flow_clock
      demo_BigInt demo_paymaster demo_net demo_async_account demo_sync_account
      prefetch_none demo_state = Inr run"
    using demo_runBenchmark by blast
  obtain l2 s2 where e2: "runBenchmark_setup_part002 demo_clock demo_BigInt demo_net
       demo_async_account demo_sync_account prefetch_all demo_run = (Inr l2, s2)"
    using demo_setup_part002 by blast
  have i: "invoked demo_run = []"
    by (simp add: demo_run_def)
  have p: "\<not> PrefetchOptions.nonce prefetch_none" "\<not> gasParams prefetch_none"
    "PrefetchOptions.nonce prefetch_all" "gasParams prefetch_all"
    "address demo_async_account = ''0xa11''" "address demo_sync_account = ''0xb22''"
    by (simp_all add: prefetch_none_def prefetch_all_def demo_async_account_def
          demo_sync_account_def)
  have "asyncRPCCalls (world s') = [] \<and> syncRPCCalls (world s') = [] \<and>
        map fst (invoked s') = [GetTransactionCount ''0xa11'', GetTransactionCount ''0xb22''] \<and>
        syncRPCCalls (sync_start run) = []"
    using setup_queries_not_logged [where clk = demo_prepared_clock and B = demo_BigInt
        and net = demo_net and a = demo_async_account and b = demo_sync_account
        and opts = prefetch_none and s = demo_run and l = l and s' = s'
        and clkA = demo_flow_clock and clkS = demo_flow_clock and pc = demo_paymaster
        and st = demo_state and run = run]
    by (simp add: e r i p)
  moreover have "syncRPCCalls (world s2) = []"
    using setup_queries_not_logged [where clk = demo_clock and B = demo_BigInt
        and net = demo_net and a = demo_async_account and b = demo_sync_account
        and opts = prefetch_all and s = demo_run and ?l2.0 = l2 and ?s2.0 = s2]
    by (simp add: e2 p)
  ultimately show ?thesis
    by (simp add: e r e2)
qed


section \<open>The gas prefetch and the fast path\<close>

text \<open>
  C6: when the gas-prefetch flag is set and the three prefetch queries settle (with a
  fee string \<open>BigInt\<close> accepts, and the nonce queries settling where they are made),
  the set-up reaches the launch of the flows with a snapshot whose fee cap is the latest
  block's base fee plus the suggested priority fee if the block has a base fee and the
  priority fee alone if it has none, whose priority fee is the suggested priority fee
  and whose gas limit is the gas estimate, after the three prefetch queries. When the
  flag is not set the set-up reaches the launch with a null snapshot and none of the
  three prefetch queries is made. Conversely, a set-up that reaches the launch with the
  flag set has had its three queries settle and carries the snapshot computed from
  them, and one without the flag carries none. Both versions of the orchestrator do
  this.
\<close>

theorem prefetched_gas_computation:
  "(gasParams opts \<longrightarrow>
      snd (net_getBlock net) = Inr block \<longrightarrow> snd (net_maxPriorityFeePerGas net) = Inr f \<longrightarrow>
      B f = Inr fee \<longrightarrow> snd (net_estimateGas net (address a) zeroAddress 0) = Inr est \<longrightarrow>
      (PrefetchOptions.nonce opts \<or>
       snd (net_getTransactionCount net (address a)) = Inr na \<and>
       snd (net_getTransactionCount net (address b)) = Inr nb) \<longrightarrow>
      (\<exists>l0 s0. runBenchmark_setup clk B net a b opts s = (Inr l0, s0) \<and>
          prefetchedGas l0 =
            Some \<lparr>PrefetchedGas.maxFeePerGas =
                     (case baseFeePerGas block of Some base \<Rightarrow> base + fee | None \<Rightarrow> fee),
                  PrefetchedGas.maxPriorityFeePerGas = fee, PrefetchedGas.gas = est\<rparr> \<and>
          map fst (invoked s0) = map fst (invoked s) @
            [GetBlock, Request_maxPriorityFeePerGas, EstimateGas (address a) zeroAddress 0] @
            (if PrefetchOptions.nonce opts then []
             else [GetTransactionCount (address a), GetTransactionCount (address b)])) \<and>
      (\<exists>l0 s0. runBenchmark_setup_part002 clk B net a b opts s = (Inr l0, s0) \<and>
          prefetchedGas l0 =
            Some \<lparr>PrefetchedGas.maxFeePerGas =
                     (case baseFeePerGas block of Some base \<Rightarrow> base + fee | None \<Rightarrow> fee),
                  PrefetchedGas.maxPriorityFeePerGas = fee, PrefetchedGas.gas = est\<rparr> \<and>
          map fst (invoked s0) = map fst (invoked s) @
            [GetBlock, Request_maxPriorityFeePerGas, EstimateGas (address a) zeroAddress 0] @
            (if PrefetchOptions.nonce opts then []
             else [GetTransactionCount (address a), GetTransactionCount (address b)]))) \<and>
   (\<not> gasParams opts \<longrightarrow>
      (PrefetchOptions.nonce opts \<or>
       snd (net_getTransactionCount net (address a)) = Inr na \<and>
       snd (net_getTransactionCount net (address b)) = Inr nb) \<longrightarrow>
      (\<exists>l0 s0. runBenchmark_setup clk B net a b opts s = (Inr l0, s0) \<and>
          prefetchedGas l0 = None \<and>
          map fst (invoked s0) = map fst (invoked s) @
            (if PrefetchOptions.nonce opts then []
             else [GetTransactionCount (address a), GetTransactionCount (address b)])) \<and>
      (\<exists>l0 s0. runBenchmark_setup_part002 clk B net a b opts s = (Inr l0, s0) \<and>
          prefetchedGas l0 = None \<and>
          map fst (invoked s0) = map fst (invoked s) @
            (if PrefetchOptions.nonce opts then []
             else [GetTransactionCount (address a), GetTransactionCount (address b)]))) \<and>
   (gasParams opts \<longrightarrow> runBenchmark_setup clk B net a b opts s = (Inr l, s') \<longrightarrow>
      (\<exists>block f fee est.
          snd (net_getBlock net) = Inr block \<and> snd (net_maxPriorityFeePerGas net) = Inr f \<and>
          B f = Inr fee \<and> snd (net_estimateGas net (address a) zeroAddress 0) = Inr est \<and>
          prefetchedGas l =
            Some \<lparr>PrefetchedGas.maxFeePerGas =
                     (case baseFeePerGas block of Some base \<Rightarrow> base + fee | None \<Rightarrow> fee),
                  PrefetchedGas.maxPriorityFeePerGas = fee, PrefetchedGas.gas = est\<rparr>)) \<and>
   (\<not> gasParams opts \<longrightarrow> runBenchmark_setup clk B net a b opts s = (Inr l, s') \<longrightarrow>
      prefetchedGas l = None \<and>
      map fst (invoked s') = map fst (invoked s) @
        (if PrefetchOptions.nonce opts then []
         else [GetTransactionCount (address a), GetTransactionCount (address b)])) \<and>
   (gasParams opts \<longrightarrow> runBenchmark_setup_part002 clk B net a b opts s = (Inr l2, s2) \<longrightarrow>
      (\<exists>block f fee est.
          snd (net_getBlock net) = Inr block \<and> snd (net_maxPriorityFeePerGas net) = Inr f \<and>
          B f = Inr fee \<and> snd (net_estimateGas net (address a) zeroAddress 0) = Inr est \<and>
          prefetchedGas l2 =
            Some \<lparr>PrefetchedGas.maxFeePerGas =
                     (case baseFeePerGas block of Some base \<Rightarrow> base + fee | None \<Rightarrow> fee),
                  PrefetchedGas.maxPriorityFeePerGas = fee, PrefetchedGas.gas = est\<rparr>)) \<and>
   (\<not> gasParams opts \<longrightarrow> runBenchmark_setup_part002 clk B net a b opts s = (Inr l2, s2) \<longrightarrow>
      prefetchedGas l2 = None \<and>
      map fst (invoked s2) = map fst (invoked s) @
        (if PrefetchOptions.nonce opts then []
         else [GetTransactionCount (address a), GetTransactionCount (address b)]))"
proof (intro conjI impI)
  assume g: "gasParams opts"
    and q: "snd (net_getBlock net) = Inr block" "snd (net_maxPriorityFeePerGas net) = Inr f"
      "B f = Inr fee" "snd (net_estimateGas net (address a) zeroAddress 0) = Inr est"
    and n: "PrefetchOptions.nonce opts \<or>
       snd (net_getTransactionCount net (address a)) = Inr na \<and>
       snd (net_getTransactionCount net (address b)) = Inr nb"
  from setup_settles [OF prefetch_gas_settles [where B = B and f = f, OF g q] n]
  obtain l0 s0 where e: "runBenchmark_setup clk B net a b opts s = (Inr l0, s0)"
    and p: "prefetchedGas l0 =
            Some \<lparr>PrefetchedGas.maxFeePerGas =
                     (case baseFeePerGas block of Some base \<Rightarrow> base + fee | None \<Rightarrow> fee),
                  PrefetchedGas.maxPriorityFeePerGas = fee, PrefetchedGas.gas = est\<rparr>"
    by blast
  from e p setup_calls [OF e] g
  show "\<exists>l0 s0. runBenchmark_setup clk B net a b opts s = (Inr l0, s0) \<and>
          prefetchedGas l0 =
            Some \<lparr>PrefetchedGas.maxFeePerGas =
                     (case baseFeePerGas block of Some base \<Rightarrow> base + fee | None \<Rightarrow> fee),
                  PrefetchedGas.maxPriorityFeePerGas = fee, PrefetchedGas.gas = est\<rparr> \<and>
          map fst (invoked s0) = map fst (invoked s) @
            [GetBlock, Request_maxPriorityFeePerGas, EstimateGas (address a) zeroAddress 0] @
            (if PrefetchOptions.nonce opts then []
             else [GetTransactionCount (address a), GetTransactionCount (address b)])"
    by simp
  from setup_part002_settles [OF prefetch_gas_settles [where B = B and f = f, OF g q] n]
  obtain l3 s3 where e3: "runBenchmark_setup_part002 clk B net a b opts s = (Inr l3, s3)"
    and p3: "prefetchedGas l3 =
            Some \<lparr>PrefetchedGas.maxFeePerGas =
                     (case baseFeePerGas block of Some base \<Rightarrow> base + fee | None \<Rightarrow> fee),
                  PrefetchedGas.maxPriorityFeePerGas = fee, PrefetchedGas.gas = est\<rparr>"
    by blast
  from e3 p3 setup_part002_facts(8) [OF e3] g
  show "\<exists>l0 s0. runBenchmark_setup_part002 clk B net a b opts s = (Inr l0, s0) \<and>
          prefetchedGas l0 =
            Some \<lparr>PrefetchedGas.maxFeePerGas =
                     (case baseFeePerGas block of Some base \<Rightarrow> base + fee | None \<Rightarrow> fee),
                  PrefetchedGas.maxPriorityFeePerGas = fee, PrefetchedGas.gas = est\<rparr> \<and>
          map fst (invoked s0) = map fst (invoked s) @
            [GetBlock, Request_maxPriorityFeePerGas, EstimateGas (address a) zeroAddress 0] @
            (if PrefetchOptions.nonce opts then []
             else [GetTransactionCount (address a), GetTransactionCount (address b)])"
    by simp
next
  assume g: "\<not> gasParams opts"
    and n: "PrefetchOptions.nonce opts \<or>
       snd (net_getTransactionCount net (address a)) = Inr na \<and>
       snd (net_getTransactionCount net (address b)) = Inr nb"
  from setup_settles [OF prefetch_gas_off [OF g] n]
  obtain l0 s0 where e: "runBenchmark_setup clk B net a b opts s = (Inr l0, s0)"
    and p: "prefetchedGas l0 = None"
    by blast
  from e p setup_calls [OF e] g
  show "\<exists>l0 s0. runBenchmark_setup clk B net a b opts s = (Inr l0, s0) \<and>
          prefetchedGas l0 = None \<and>
          map fst (invoked s0) = map fst (invoked s) @
            (if PrefetchOptions.nonce opts then []
             else [GetTransactionCount (address a), GetTransactionCount (address b)])"
    by simp
  from setup_part002_settles [OF prefetch_gas_off [OF g] n]
  obtain l3 s3 where e3: "runBenchmark_setup_part002 clk B net a b opts s = (Inr l3, s3)"
    and p3: "prefetchedGas l3 = None"
    by blast
  from e3 p3 setup_part002_facts(8) [OF e3] g
  show "\<exists>l0 s0. runBenchmark_setup_part002 clk B net a b opts s = (Inr l0, s0) \<and>
          prefetchedGas l0 = None \<and>
          map fst (invoked s0) = map fst (invoked s) @
            (if PrefetchOptions.nonce opts then []
             else [GetTransactionCount (address a), GetTransactionCount (address b)])"
    by simp
next
  assume g: "gasParams opts" and e: "runBenchmark_setup clk B net a b opts s = (Inr l, s')"
  from setup_facts(2) [OF e] obtain s0 where
    "fst (prefetch_gas B net a opts s0) = Inr (prefetchedGas l)" ..
  from prefetch_gas_on [OF g this]
  show "\<exists>block f fee est.
          snd (net_getBlock net) = Inr block \<and> snd (net_maxPriorityFeePerGas net) = Inr f \<and>
          B f = Inr fee \<and> snd (net_estimateGas net (address a) zeroAddress 0) = Inr est \<and>
          prefetchedGas l =
            Some \<lparr>PrefetchedGas.maxFeePerGas =
                     (case baseFeePerGas block of Some base \<Rightarrow> base + fee | None \<Rightarrow> fee),
                  PrefetchedGas.maxPriorityFeePerGas = fee, PrefetchedGas.gas = est\<rparr>" .
next
  assume g: "\<not> gasParams opts" and e: "runBenchmark_setup clk B net a b opts s = (Inr l, s')"
  from setup_facts(2) [OF e] obtain s0 where
    "fst (prefetch_gas B net a opts s0) = Inr (prefetchedGas l)" ..
  then show "prefetchedGas l = None"
    by (simp add: prefetch_gas_off [OF g])
  show "map fst (invoked s') = map fst (invoked s) @
        (if PrefetchOptions.nonce opts then []
         else [GetTransactionCount (address a), GetTransactionCount (address b)])"
    using setup_calls [OF e] g by simp
next
  assume g: "gasParams opts"
    and e: "runBenchmark_setup_part002 clk B net a b opts s = (Inr l2, s2)"
  from setup_part002_facts(3) [OF e] obtain s0 where
    "fst (prefetch_gas B net a opts s0) = Inr (prefetchedGas l2)" ..
  from prefetch_gas_on [OF g this]
  show "\<exists>block f fee est.
          snd (net_getBlock net) = Inr block \<and> snd (net_maxPriorityFeePerGas net) = Inr f \<and>
          B f = Inr fee \<and> snd (net_estimateGas net (address a) zeroAddress 0) = Inr est \<and>
          prefetchedGas l2 =
            Some \<lparr>PrefetchedGas.maxFeePerGas =
                     (case baseFeePerGas block of Some base \<Rightarrow> base + fee | None \<Rightarrow> fee),
                  PrefetchedGas.maxPriorityFeePerGas = fee, PrefetchedGas.gas = est\<rparr>" .
next
  assume g: "\<not> gasParams opts"
    and e: "runBenchmark_setup_part002 clk B net a b opts s = (Inr l2, s2)"
  from setup_part002_facts(3) [OF e] obtain s0 where
    "fst (prefetch_gas B net a opts s0) = Inr (prefetchedGas l2)" ..
  then show "prefetchedGas l2 = None"
    by (simp add: prefetch_gas_off [OF g])
  show "map fst (invoked s2) = map fst (invoked s) @
        (if PrefetchOptions.nonce opts then []
         else [GetTransactionCount (address a), GetTransactionCount (address b)])"
    using setup_part002_facts(8) [OF e] g by simp
qed

theorem prefetched_gas_computation_witness:
  "\<not> isl (fst (runBenchmark_setup demo_prepared_clock demo_BigInt demo_net
       demo_async_account demo_sync_account prefetch_all demo_run)) \<and>
   prefetchedGas (projr (fst (runBenchmark_setup demo_prepared_clock demo_BigInt demo_net
       demo_async_account demo_sync_account prefetch_all demo_run))) =
     Some \<lparr>PrefetchedGas.maxFeePerGas = 17, PrefetchedGas.maxPriorityFeePerGas = 10,
           PrefetchedGas.gas = 21000\<rparr> \<and>
   map fst (invoked (snd (runBenchmark_setup demo_prepared_clock demo_BigInt demo_net
       demo_async_account demo_sync_account prefetch_all demo_run))) =
     [GetBlock, Request_maxPriorityFeePerGas, EstimateGas ''0xa11'' zeroAddress 0] \<and>
   \<not> isl (fst (runBenchmark_setup_part002 demo_clock demo_BigInt demo_net
       demo_async_account demo_sync_account prefetch_all demo_run)) \<and>
   prefetchedGas (projr (fst (runBenchmark_setup_part002 demo_clock demo_BigInt demo_net
       demo_async_account demo_sync_account prefetch_all demo_run))) =
     Some \<lparr>PrefetchedGas.maxFeePerGas = 17, PrefetchedGas.maxPriorityFeePerGas = 10,
           PrefetchedGas.gas = 21000\<rparr> \<and>
   map fst (invoked (snd (runBenchmark_setup_part002 demo_clock demo_BigInt demo_net
       demo_async_account demo_sync_account prefetch_all demo_run))) =
     [GetBlock, Request_maxPriorityFeePerGas, EstimateGas ''0xa11'' zeroAddress 0] \<and>
   \<not> isl (fst (runBenchmark_setup demo_prepared_clock demo_BigInt demo_net_no_base_fee
       demo_async_account demo_sync_account prefetch_all demo_run)) \<and>
   prefetchedGas (projr (fst (runBenchmark_setup demo_prepared_clock demo_BigInt demo_net_no_base_fee
       demo_async_account demo_sync_account prefetch_all demo_run))) =
     Some \<lparr>PrefetchedGas.maxFeePerGas = 10, PrefetchedGas.maxPriorityFeePerGas = 10,
           PrefetchedGas.gas = 21000\<rparr> \<and>
   map fst (invoked (snd (runBenchmark_setup demo_prepared_clock demo_BigInt demo_net_no_base_fee
       demo_async_account demo_sync_account prefetch_all demo_run))) =
     [GetBlock, Request_maxPriorityFeePerGas, EstimateGas ''0xa11'' zeroAddress 0] \<and>
   \<not> isl (fst (runBenchmark_setup_part002 demo_clock demo_BigInt demo_net_no_base_fee
       demo_async_account demo_sync_account prefetch_all demo_run)) \<and>
   prefetchedGas (projr (fst (runBenchmark_setup_part002 demo_clock demo_BigInt demo_net_no_base_fee
       demo_async_account demo_sync_account prefetch_all demo_run))) =
     Some \<lparr>PrefetchedGas.maxFeePerGas = 10, PrefetchedGas.maxPriorityFeePerGas = 10,
           PrefetchedGas.gas = 21000\<rparr> \<and>
   map fst (invoked (snd (runBenchmark_setup_part002 demo_clock demo_BigInt demo_net_no_base_fee
       demo_async_account demo_sync_account prefetch_all demo_run))) =
     [GetBlock, Request_maxPriorityFeePerGas, EstimateGas ''0xa11'' zeroAddress 0] \<and>
   \<not> isl (fst (runBenchmark_setup demo_prepared_clock demo_BigInt demo_net
       demo_async_account demo_sync_account prefetch_none demo_run)) \<and>
   prefetchedGas (projr (fst (runBenchmark_setup demo_prepared_clock demo_BigInt demo_net
       demo_async_account demo_sync_account prefetch_none demo_run))) =
     None \<and>
   map fst (invoked (snd (runBenchmark_setup demo_prepared_clock demo_BigInt demo_net
       demo_async_account demo_sync_account prefetch_none demo_run))) =
     [GetTransactionCount ''0xa11'', GetTransactionCount ''0xb22''] \<and>
   \<not> isl (fst (runBenchmark_setup_part002 demo_clock demo_BigInt demo_net
       demo_async_account demo_sync_account prefetch_none demo_run)) \<and>
   prefetchedGas (projr (fst (runBenchmark_setup_part002 demo_clock demo_BigInt demo_net
       demo_async_account demo_sync_account prefetch_none demo_run))) =
     None \<and>
   map fst (invoked (snd (runBenchmark_setup_part002 demo_clock demo_BigInt demo_net
       demo_async_account demo_sync_account prefetch_none demo_run))) =
     [GetTransactionCount ''0xa11'', GetTransactionCount ''0xb22'']"
proof -
  have p: "gasParams prefetch_all" "\<not> gasParams prefetch_none"
    "PrefetchOptions.nonce prefetch_all" "\<not> PrefetchOptions.nonce prefetch_none"
    by (simp_all add: prefetch_all_def prefetch_none_def)
  have n: "snd (net_getBlock demo_net) = Inr \<lparr>baseFeePerGas = Some 7\<rparr>"
    "snd (net_getBlock demo_net_no_base_fee) = Inr \<lparr>baseFeePerGas = None\<rparr>"
    "snd (net_maxPriorityFeePerGas demo_net) = Inr ''0xa''"
    "snd (net_maxPriorityFeePerGas demo_net_no_base_fee) = Inr ''0xa''"
    "snd (net_estimateGas demo_net x y z) = Inr 21000"
    "snd (net_estimateGas demo_net_no_base_fee x y z) = Inr 21000"
    "snd (net_getTransactionCount demo_net x) = Inr 0" for x y z
    by (simp_all add: demo_net_no_base_fee_def demo_net_def)
  have d: "demo_BigInt ''0xa'' = Inr 10"
    by (simp add: demo_BigInt_def)
  have i: "invoked demo_run = []" "address demo_async_account = ''0xa11''"
    "address demo_sync_account = ''0xb22''"
    by (simp_all add: demo_run_def demo_async_account_def demo_sync_account_def)
  have "\<exists>l0 s0. runBenchmark_setup demo_prepared_clock demo_BigInt demo_net
       demo_async_account demo_sync_account prefetch_all demo_run = (Inr l0, s0) \<and>
       prefetchedGas l0 = Some \<lparr>PrefetchedGas.maxFeePerGas = 17, PrefetchedGas.maxPriorityFeePerGas = 10,
           PrefetchedGas.gas = 21000\<rparr> \<and>
       map fst (invoked s0) = [GetBlock, Request_maxPriorityFeePerGas, EstimateGas ''0xa11'' zeroAddress 0]"
    using prefetched_gas_computation [where clk = demo_prepared_clock and B = demo_BigInt
        and net = demo_net and a = demo_async_account and b = demo_sync_account
        and opts = prefetch_all and s = demo_run and block = "\<lparr>baseFeePerGas = Some 7\<rparr>"
        and f = "''0xa''" and fee = 10 and est = 21000 and na = 0 and nb = 0,
        THEN conjunct1]
    by (simp add: p n d i)
  then obtain l1 s1 where e1: "runBenchmark_setup demo_prepared_clock demo_BigInt demo_net
       demo_async_account demo_sync_account prefetch_all demo_run = (Inr l1, s1)"
    and g1: "prefetchedGas l1 = Some \<lparr>PrefetchedGas.maxFeePerGas = 17, PrefetchedGas.maxPriorityFeePerGas = 10,
           PrefetchedGas.gas = 21000\<rparr>"
    and k1: "map fst (invoked s1) = [GetBlock, Request_maxPriorityFeePerGas, EstimateGas ''0xa11'' zeroAddress 0]"
    by (elim exE conjE) (rule that)
  have "\<exists>l0 s0. runBenchmark_setup_part002 demo_clock demo_BigInt demo_net
       demo_async_account demo_sync_account prefetch_all demo_run = (Inr l0, s0) \<and>
       prefetchedGas l0 = Some \<lparr>PrefetchedGas.maxFeePerGas = 17, PrefetchedGas.maxPriorityFeePerGas = 10,
           PrefetchedGas.gas = 21000\<rparr> \<and>
       map fst (invoked s0) = [GetBlock, Request_maxPriorityFeePerGas, EstimateGas ''0xa11'' zeroAddress 0]"
    using prefetched_gas_computation [where clk = demo_clock and B = demo_BigInt
        and net = demo_net and a = demo_async_account and b = demo_sync_account
        and opts = prefetch_all and s = demo_run and block = "\<lparr>baseFeePerGas = Some 7\<rparr>"
        and f = "''0xa''" and fee = 10 and est = 21000 and na = 0 and nb = 0,
        THEN conjunct1]
    by (simp add: p n d i)
  then obtain l2 s2 where e2: "runBenchmark_setup_part002 demo_clock demo_BigInt demo_net
       demo_async_account demo_sync_account prefetch_all demo_run = (Inr l2, s2)"
    and g2: "prefetchedGas l2 = Some \<lparr>PrefetchedGas.maxFeePerGas = 17, PrefetchedGas.maxPriorityFeePerGas = 10,
           PrefetchedGas.gas = 21000\<rparr>"
    and k2: "map fst (invoked s2) = [GetBlock, Request_maxPriorityFeePerGas, EstimateGas ''0xa11'' zeroAddress 0]"
    by (elim exE conjE) (rule that)
  have "\<exists>l0 s0. runBenchmark_setup demo_prepared_clock demo_BigInt demo_net_no_base_fee
       demo_async_account demo_sync_account prefetch_all demo_run = (Inr l0, s0) \<and>
       prefetchedGas l0 = Some \<lparr>PrefetchedGas.maxFeePerGas = 10, PrefetchedGas.maxPriorityFeePerGas = 10,
           PrefetchedGas.gas = 21000\<rparr> \<and>
       map fst (invoked s0) = [GetBlock, Request_maxPriorityFeePerGas, EstimateGas ''0xa11'' zeroAddress 0]"
    using prefetched_gas_computation [where clk = demo_prepared_clock and B = demo_BigInt
        and net = demo_net_no_base_fee and a = demo_async_account and b = demo_sync_account
        and opts = prefetch_all and s = demo_run and block = "\<lparr>baseFeePerGas = None\<rparr>"
        and f = "''0xa''" and fee = 10 and est = 21000 and na = 0 and nb = 0,
        THEN conjunct1]
    by (simp add: p n d i)
  then obtain l3 s3 where e3: "runBenchmark_setup demo_prepared_clock demo_BigInt demo_net_no_base_fee
       demo_async_account demo_sync_account prefetch_all demo_run = (Inr l3, s3)"
    and g3: "prefetchedGas l3 = Some \<lparr>PrefetchedGas.maxFeePerGas = 10, PrefetchedGas.maxPriorityFeePerGas = 10,
           PrefetchedGas.gas = 21000\<rparr>"
    and k3: "map fst (invoked s3) = [GetBlock, Request_maxPriorityFeePerGas, EstimateGas ''0xa11'' zeroAddress 0]"
    by (elim exE conjE) (rule that)
  have "\<exists>l0 s0. runBenchmark_setup_part002 demo_clock demo_BigInt demo_net_no_base_fee
       demo_async_account demo_sync_account prefetch_all demo_run = (Inr l0, s0) \<and>
       prefetchedGas l0 = Some \<lparr>PrefetchedGas.maxFeePerGas = 10, PrefetchedGas.maxPriorityFeePerGas = 10,
           PrefetchedGas.gas = 21000\<rparr> \<and>
       map fst (invoked s0) = [GetBlock, Request_maxPriorityFeePerGas, EstimateGas ''0xa11'' zeroAddress 0]"
    using prefetched_gas_computation [where clk = demo_clock and B = demo_BigInt
        and net = demo_net_no_base_fee and a = demo_async_account and b = demo_sync_account
        and opts = prefetch_all and s = demo_run and block = "\<lparr>baseFeePerGas = None\<rparr>"
        and f = "''0xa''" and fee = 10 and est = 21000 and na = 0 and nb = 0,
        THEN conjunct1]
    by (simp add: p n d i)
  then obtain l4 s4 where e4: "runBenchmark_setup_part002 demo_clock demo_BigInt demo_net_no_base_fee
       demo_async_account demo_sync_account prefetch_all demo_run = (Inr l4, s4)"
    and g4: "prefetchedGas l4 = Some \<lparr>PrefetchedGas.maxFeePerGas = 10, PrefetchedGas.maxPriorityFeePerGas = 10,
           PrefetchedGas.gas = 21000\<rparr>"
    and k4: "map fst (invoked s4) = [GetBlock, Request_maxPriorityFeePerGas, EstimateGas ''0xa11'' zeroAddress 0]"
    by (elim exE conjE) (rule that)
  have "\<exists>l0 s0. runBenchmark_setup demo_prepared_clock demo_BigInt demo_net
       demo_async_account demo_sync_account prefetch_none demo_run = (Inr l0, s0) \<and>
       prefetchedGas l0 = None \<and>
       map fst (invoked s0) = [GetTransactionCount ''0xa11'', GetTransactionCount ''0xb22'']"
    using prefetched_gas_computation [where clk = demo_prepared_clock and B = demo_BigInt
        and net = demo_net and a = demo_async_account and b = demo_sync_account
        and opts = prefetch_none and s = demo_run and na = 0 and nb = 0,
        THEN conjunct2, THEN conjunct1]
    by (simp add: p n d i)
  then obtain l5 s5 where e5: "runBenchmark_setup demo_prepared_clock demo_BigInt demo_net
       demo_async_account demo_sync_account prefetch_none demo_run = (Inr l5, s5)"
    and g5: "prefetchedGas l5 = None"
    and k5: "map fst (invoked s5) = [GetTransactionCount ''0xa11'', GetTransactionCount ''0xb22'']"
    by (elim exE conjE) (rule that)
  have "\<exists>l0 s0. runBenchmark_setup_part002 demo_clock demo_BigInt demo_net
       demo_async_account demo_sync_account prefetch_none demo_run = (Inr l0, s0) \<and>
       prefetchedGas l0 = None \<and>
       map fst (invoked s0) = [GetTransactionCount ''0xa11'', GetTransactionCount ''0xb22'']"
    using prefetched_gas_computation [where clk = demo_clock and B = demo_BigInt
        and net = demo_net and a = demo_async_account and b = demo_sync_account
        and opts = prefetch_none and s = demo_run and na = 0 and nb = 0,
        THEN conjunct2, THEN conjunct1]
    by (simp add: p n d i)
  then obtain l6 s6 where e6: "runBenchmark_setup_part002 demo_clock demo_BigInt demo_net
       demo_async_account demo_sync_account prefetch_none demo_run = (Inr l6, s6)"
    and g6: "prefetchedGas l6 = None"
    and k6: "map fst (invoked s6) = [GetTransactionCount ''0xa11'', GetTransactionCount ''0xb22'']"
    by (elim exE conjE) (rule that)
  have b1: "\<exists>block f fee est.
       snd (net_getBlock demo_net) = Inr block \<and> snd (net_maxPriorityFeePerGas demo_net) = Inr f \<and>
       demo_BigInt f = Inr fee \<and>
       snd (net_estimateGas demo_net (address demo_async_account) zeroAddress 0) = Inr est \<and>
       prefetchedGas l1 =
         Some \<lparr>PrefetchedGas.maxFeePerGas =
                  (case baseFeePerGas block of Some base \<Rightarrow> base + fee | None \<Rightarrow> fee),
               PrefetchedGas.maxPriorityFeePerGas = fee, PrefetchedGas.gas = est\<rparr>"
    using prefetched_gas_computation [where clk = demo_prepared_clock and B = demo_BigInt
        and net = demo_net and a = demo_async_account and b = demo_sync_account
        and opts = prefetch_all and s = demo_run and block = "\<lparr>baseFeePerGas = Some 7\<rparr>"
        and f = "''0xa''" and fee = 10 and est = 21000 and na = 0 and nb = 0 and l = l1 and s' = s1,
        THEN conjunct2, THEN conjunct2, THEN conjunct1]
    by (simp add: p e1)
  have b2: "\<exists>block f fee est.
       snd (net_getBlock demo_net) = Inr block \<and> snd (net_maxPriorityFeePerGas demo_net) = Inr f \<and>
       demo_BigInt f = Inr fee \<and>
       snd (net_estimateGas demo_net (address demo_async_account) zeroAddress 0) = Inr est \<and>
       prefetchedGas l2 =
         Some \<lparr>PrefetchedGas.maxFeePerGas =
                  (case baseFeePerGas block of Some base \<Rightarrow> base + fee | None \<Rightarrow> fee),
               PrefetchedGas.maxPriorityFeePerGas = fee, PrefetchedGas.gas = est\<rparr>"
    using prefetched_gas_computation [where clk = demo_clock and B = demo_BigInt
        and net = demo_net and a = demo_async_account and b = demo_sync_account
        and opts = prefetch_all and s = demo_run and block = "\<lparr>baseFeePerGas = Some 7\<rparr>"
        and f = "''0xa''" and fee = 10 and est = 21000 and na = 0 and nb = 0 and ?l2.0 = l2 and ?s2.0 = s2,
        THEN conjunct2, THEN conjunct2, THEN conjunct2, THEN conjunct2, THEN conjunct1]
    by (simp add: p e2)
  have b5: "prefetchedGas l5 = None \<and>
       map fst (invoked s5) = [GetTransactionCount ''0xa11'', GetTransactionCount ''0xb22'']"
    using prefetched_gas_computation [where clk = demo_prepared_clock and B = demo_BigInt
        and net = demo_net and a = demo_async_account and b = demo_sync_account
        and opts = prefetch_none and s = demo_run and na = 0 and nb = 0 and l = l5 and s' = s5,
        THEN conjunct2, THEN conjunct2, THEN conjunct2, THEN conjunct1]
    by (simp add: p e5 i)
  have b6: "prefetchedGas l6 = None \<and>
       map fst (invoked s6) = [GetTransactionCount ''0xa11'', GetTransactionCount ''0xb22'']"
    using prefetched_gas_computation [where clk = demo_clock and B = demo_BigInt
        and net = demo_net and a = demo_async_account and b = demo_sync_account
        and opts = prefetch_none and s = demo_run and na = 0 and nb = 0 and ?l2.0 = l6 and ?s2.0 = s6,
        THEN conjunct2, THEN conjunct2, THEN conjunct2, THEN conjunct2, THEN conjunct2]
    by (simp add: p e6 i)
  from b1 b2 b5 b6 show ?thesis
    by (simp add: e1 e2 e3 e4 e5 e6 g1 g2 g3 g4 k1 k2 k3 k4)
qed

text \<open>
  C9: when the gas-prefetch flag is not set, the orchestrator hands the flows a null
  gas snapshot, and the polling flow takes the normal path: its first call is the
  standard send of the assembled parameters, followed only by the wait for the
  receipt. This holds whatever the other two flags are, in both versions of the
  orchestrator; and the condition of the fast path fails without the flag whatever
  snapshot the flow is given.
\<close>

theorem no_fast_path_without_gas_prefetch:
  "(\<not> gasParams opts \<longrightarrow> \<not> all_prefetched opts pg) \<and>
   (\<not> gasParams opts \<longrightarrow> runBenchmark_setup clk B net a b opts s = (Inr l, s') \<longrightarrow>
      prefetchedGas l = None) \<and>
   (\<not> gasParams opts \<longrightarrow> runBenchmark_setup_part002 clk B net a b opts s = (Inr l2, s2) \<longrightarrow>
      prefetchedGas l2 = None) \<and>
   (\<not> gasParams opts \<longrightarrow> runBenchmark clk clkA clkS B pc net a b opts st = Inr run \<longrightarrow>
      (\<exists>n. map fst (async_calls run) = [SendTransaction (build_txParams pc n opts None)] \<or>
        (\<exists>h. map fst (async_calls run) =
           [SendTransaction (build_txParams pc n opts None), WaitForTransactionReceipt h]))) \<and>
   (\<not> gasParams opts \<longrightarrow>
      runBenchmark_part002 clk clkA clkS tA tS B pc net a b opts st = Inr run2 \<longrightarrow>
      (\<exists>n. map fst (async_calls run2) = [SendTransaction (build_txParams pc n opts None)] \<or>
        (\<exists>h. map fst (async_calls run2) =
           [SendTransaction (build_txParams pc n opts None), WaitForTransactionReceipt h])))"
proof (intro conjI impI)
  assume g: "\<not> gasParams opts"
  then show "\<not> all_prefetched opts pg"
    by (simp add: all_prefetched_def)
  have normal: "\<exists>n. map fst (invoked (snd (runAsyncTransaction clk' pc clients n' r opts None
                   \<lparr>reads = 0, invoked = [], world = w\<rparr>))) =
                 [SendTransaction (build_txParams pc n opts None)] \<or>
            (\<exists>h. map fst (invoked (snd (runAsyncTransaction clk' pc clients n' r opts None
                   \<lparr>reads = 0, invoked = [], world = w\<rparr>))) =
                 [SendTransaction (build_txParams pc n opts None), WaitForTransactionReceipt h])"
    for clk' n' w and clients :: "app_state TransactionClientsWithAccount" and r :: array_ref
    using g by (auto simp add: async_calls all_prefetched_def split: prod.split sum.split)
  {
    assume e: "runBenchmark_setup clk B net a b opts s = (Inr l, s')"
    from setup_facts(2) [OF e] obtain s0 where
      "fst (prefetch_gas B net a opts s0) = Inr (prefetchedGas l)" ..
    then show "prefetchedGas l = None"
      by (simp add: prefetch_gas_off [OF g])
  }
  {
    assume e: "runBenchmark_setup_part002 clk B net a b opts s = (Inr l2, s2)"
    from setup_part002_facts(3) [OF e] obtain s0 where
      "fst (prefetch_gas B net a opts s0) = Inr (prefetchedGas l2)" ..
    then show "prefetchedGas l2 = None"
      by (simp add: prefetch_gas_off [OF g])
  }
  {
    assume "runBenchmark clk clkA clkS B pc net a b opts st = Inr run"
    then obtain l0 s0 where
      prep: "runBenchmark_setup clk B net a b opts \<lparr>reads = 0, invoked = [], world = st\<rparr> =
               (Inr l0, s0)"
      and run: "run = runBenchmark_flows clkA clkS pc a b opts l0 (world s0)"
      by (rule runBenchmark_Inr)
    from setup_facts(2) [OF prep] obtain s1 where
      "fst (prefetch_gas B net a opts s1) = Inr (prefetchedGas l0)" ..
    then have "prefetchedGas l0 = None"
      by (simp add: prefetch_gas_off [OF g])
    then show "\<exists>n. map fst (async_calls run) =
                     [SendTransaction (build_txParams pc n opts None)] \<or>
        (\<exists>h. map fst (async_calls run) =
           [SendTransaction (build_txParams pc n opts None), WaitForTransactionReceipt h])"
      unfolding run flows_async using normal by simp
  }
  {
    assume "runBenchmark_part002 clk clkA clkS tA tS B pc net a b opts st = Inr run2"
    then obtain l0 s0 where
      prep: "runBenchmark_setup_part002 clk B net a b opts
               \<lparr>reads = 0, invoked = [], world = st\<rparr> = (Inr l0, s0)"
      and run: "run2 = runBenchmark_flows_part002 clkA clkS tA tS pc a b opts l0 (world s0)"
      by (rule runBenchmark_part002_Inr)
    from setup_part002_facts(3) [OF prep] obtain s1 where
      "fst (prefetch_gas B net a opts s1) = Inr (prefetchedGas l0)" ..
    then have "prefetchedGas l0 = None"
      by (simp add: prefetch_gas_off [OF g])
    then show "\<exists>n. map fst (async_calls run2) =
                     [SendTransaction (build_txParams pc n opts None)] \<or>
        (\<exists>h. map fst (async_calls run2) =
           [SendTransaction (build_txParams pc n opts None), WaitForTransactionReceipt h])"
      unfolding run flows_part002_async using normal by simp
  }
qed


theorem no_fast_path_without_gas_prefetch_witness:
  "\<not> all_prefetched prefetch_no_gas (Some demo_gas) \<and>
   prefetchedGas (projr (fst (runBenchmark_setup demo_prepared_clock demo_BigInt demo_net
       demo_async_account demo_sync_account prefetch_no_gas demo_run))) = None \<and>
   prefetchedGas (projr (fst (runBenchmark_setup_part002 demo_clock demo_BigInt demo_net
       demo_async_account demo_sync_account prefetch_no_gas demo_run))) = None \<and>
   (\<exists>n. hd (map fst (async_calls (projr (runBenchmark demo_prepared_clock demo_flow_clock
             demo_flow_clock demo_BigInt demo_paymaster demo_net demo_async_account
             demo_sync_account prefetch_no_gas demo_state)))) =
        SendTransaction (build_txParams demo_paymaster n prefetch_no_gas None)) \<and>
   (\<exists>n. hd (map fst (async_calls (projr (runBenchmark_part002 demo_clock demo_flow_clock
             demo_flow_clock 1100 1120 demo_BigInt demo_paymaster demo_net demo_async_account
             demo_sync_account prefetch_no_gas demo_state)))) =
        SendTransaction (build_txParams demo_paymaster n prefetch_no_gas None))"
proof -
  obtain l1 s1 where e1: "runBenchmark_setup demo_prepared_clock demo_BigInt demo_net
       demo_async_account demo_sync_account prefetch_no_gas demo_run = (Inr l1, s1)"
    using demo_setup by blast
  obtain l2 s2 where e2: "runBenchmark_setup_part002 demo_clock demo_BigInt demo_net
       demo_async_account demo_sync_account prefetch_no_gas demo_run = (Inr l2, s2)"
    using demo_setup_part002 by blast
  obtain run where r: "runBenchmark demo_prepared_clock demo_flow_clock demo_flow_clock
      demo_BigInt demo_paymaster demo_net demo_async_account demo_sync_account
      prefetch_no_gas demo_state = Inr run"
    using demo_runBenchmark by blast
  obtain run2 where r2: "runBenchmark_part002 demo_clock demo_flow_clock demo_flow_clock
      1100 1120 demo_BigInt demo_paymaster demo_net demo_async_account demo_sync_account
      prefetch_no_gas demo_state = Inr run2"
    using demo_runBenchmark_part002 by blast
  have p: "\<not> gasParams prefetch_no_gas"
    by (simp add: prefetch_no_gas_def)
  note t = no_fast_path_without_gas_prefetch [where opts = prefetch_no_gas
      and pg = "Some demo_gas" and clk = demo_prepared_clock and B = demo_BigInt
      and net = demo_net and a = demo_async_account and b = demo_sync_account
      and s = demo_run and l = l1 and s' = s1 and ?l2.0 = l2 and ?s2.0 = s2
      and clkA = demo_flow_clock and clkS = demo_flow_clock and pc = demo_paymaster
      and st = demo_state and run = run and tA = 1100 and tS = 1120 and ?run2.0 = run2]
  note t2 = no_fast_path_without_gas_prefetch [where opts = prefetch_no_gas
      and pg = "Some demo_gas" and clk = demo_clock and B = demo_BigInt
      and net = demo_net and a = demo_async_account and b = demo_sync_account
      and s = demo_run and l = l1 and s' = s1 and ?l2.0 = l2 and ?s2.0 = s2
      and clkA = demo_flow_clock and clkS = demo_flow_clock and pc = demo_paymaster
      and st = demo_state and run = run and tA = 1100 and tS = 1120 and ?run2.0 = run2]
  have "\<not> all_prefetched prefetch_no_gas (Some demo_gas)"
    and "prefetchedGas l1 = None" and "prefetchedGas l2 = None"
    and "\<exists>n. hd (map fst (async_calls run)) =
           SendTransaction (build_txParams demo_paymaster n prefetch_no_gas None)"
    and "\<exists>n. hd (map fst (async_calls run2)) =
           SendTransaction (build_txParams demo_paymaster n prefetch_no_gas None)"
    using t t2 p e1 e2 r r2 by auto
  then show ?thesis
    by (simp add: e1 e2 r r2)
qed

end
